theory Spec2Isabelle
  imports Complex_Main "HOL-Library.Sublist" "HOL-Library.AList"
begin

section \<open>JSON documents as Python holds them\<close>

text \<open>
  \<^verbatim>\<open>json.loads\<close> yields \<^verbatim>\<open>None\<close>, \<^verbatim>\<open>bool\<close>, \<^verbatim>\<open>int\<close>,
  \<^verbatim>\<open>float\<close>, \<^verbatim>\<open>str\<close>, \<^verbatim>\<open>list\<close> and \<^verbatim>\<open>dict\<close>. A dict keeps the
  insertion order of its keys, so it is an association list; in a dict that Python built the keys
  are distinct. A float is modelled by the rational it denotes (the literals NaN and Infinity,
  which are not JSON, are left out). Python's \<^verbatim>\<open>None\<close> is \<open>JNull\<close>.
\<close>

datatype json =
    JNull
  | JBool bool
  | JInt int
  | JFloat rat
  | JStr string
  | JList "json list"
  | JObj "(string \<times> json) list"

text \<open>The exceptions that the script can meet. \<open>SystemExit\<close> is what \<^verbatim>\<open>sys.exit\<close>
  raises; it is the only one that is not an \<^verbatim>\<open>Exception\<close>.\<close>

datatype exn =
    ClientError string
  | ConnectionFault string
  | JSONDecodeError
  | FileNotFoundError string
  | KeyError json
  | TypeError
  | AttributeError
  | IndexError
  | SystemExit nat

fun is_Exception :: "exn \<Rightarrow> bool" where
  "is_Exception (SystemExit _) = False"
| "is_Exception _ = True"

text \<open>Truth value of an object, as \<^verbatim>\<open>if policy:\<close> tests it.\<close>

fun truthy :: "json \<Rightarrow> bool" where
  "truthy JNull = False"
| "truthy (JBool b) = b"
| "truthy (JInt i) = (i \<noteq> 0)"
| "truthy (JFloat r) = (r \<noteq> 0)"
| "truthy (JStr s) = (s \<noteq> [])"
| "truthy (JList xs) = (xs \<noteq> [])"
| "truthy (JObj kvs) = (kvs \<noteq> [])"

text \<open>Numbers compare by value across \<^verbatim>\<open>bool\<close>, \<^verbatim>\<open>int\<close> and \<^verbatim>\<open>float\<close>.\<close>

fun num_of :: "json \<Rightarrow> rat option" where
  "num_of (JBool b) = Some (if b then 1 else 0)"
| "num_of (JInt i) = Some (of_int i)"
| "num_of (JFloat r) = Some r"
| "num_of _ = None"

text \<open>Python's \<^verbatim>\<open>==\<close> on these objects: lists elementwise, dicts as mappings
  (same number of keys, and equal values under every key).\<close>

fun py_eq :: "json \<Rightarrow> json \<Rightarrow> bool" where
  "py_eq JNull b = (b = JNull)"
| "py_eq (JStr s) b = (b = JStr s)"
| "py_eq (JList xs) b = (case b of JList ys \<Rightarrow> list_all2 py_eq xs ys | _ \<Rightarrow> False)"
| "py_eq (JObj xs) b =
     (case b of
        JObj ys \<Rightarrow> length xs = length ys \<and>
          list_all (\<lambda>kv. case map_of ys (fst kv) of None \<Rightarrow> False | Some w \<Rightarrow> py_eq (snd kv) w) xs
      | _ \<Rightarrow> False)"
| "py_eq a b =
     (case (num_of a, num_of b) of (Some x, Some y) \<Rightarrow> x = y | _ \<Rightarrow> False)"

subsection \<open>Subscripts, methods and iteration\<close>

text \<open>\<^verbatim>\<open>obj['key']\<close> with a string key.\<close>

fun getitem :: "json \<Rightarrow> string \<Rightarrow> exn + json" where
  "getitem (JObj kvs) k = (case map_of kvs k of None \<Rightarrow> Inl (KeyError (JStr k)) | Some v \<Rightarrow> Inr v)"
| "getitem _ k = Inl TypeError"

text \<open>\<^verbatim>\<open>obj[0]\<close>. The keys of a decoded dict are strings, so 0 is never one of them.\<close>

fun getitem0 :: "json \<Rightarrow> exn + json" where
  "getitem0 (JList xs) = (case xs of [] \<Rightarrow> Inl IndexError | x # _ \<Rightarrow> Inr x)"
| "getitem0 (JStr s) = (case s of [] \<Rightarrow> Inl IndexError | c # _ \<Rightarrow> Inr (JStr [c]))"
| "getitem0 (JObj kvs) = Inl (KeyError (JInt 0))"
| "getitem0 _ = Inl TypeError"

text \<open>\<^verbatim>\<open>stmt.get('Sid')\<close>: only a dict has the method; a missing key gives \<^verbatim>\<open>None\<close>.\<close>

fun dict_get :: "json \<Rightarrow> string \<Rightarrow> exn + json" where
  "dict_get (JObj kvs) k = (case map_of kvs k of None \<Rightarrow> Inr JNull | Some v \<Rightarrow> Inr v)"
| "dict_get _ k = Inl AttributeError"

text \<open>\<^verbatim>\<open>obj['key'] = v\<close> on a dict: an existing key keeps its place.\<close>

fun setitem :: "json \<Rightarrow> string \<Rightarrow> json \<Rightarrow> exn + json" where
  "setitem (JObj kvs) k v = Inr (JObj (AList.update k v kvs))"
| "setitem _ k v = Inl TypeError"

text \<open>What a \<^verbatim>\<open>for\<close> loop sees: the items of a list, the keys of a dict, the characters
  of a string; anything else is not iterable.\<close>

fun py_iter :: "json \<Rightarrow> exn + json list" where
  "py_iter (JList xs) = Inr xs"
| "py_iter (JObj kvs) = Inr (map (\<lambda>kv. JStr (fst kv)) kvs)"
| "py_iter (JStr s) = Inr (map (\<lambda>c. JStr [c]) s)"
| "py_iter _ = Inl TypeError"

text \<open>\<^verbatim>\<open>len(obj)\<close>.\<close>

fun py_len :: "json \<Rightarrow> exn + nat" where
  "py_len (JList xs) = Inr (length xs)"
| "py_len (JObj kvs) = Inr (length kvs)"
| "py_len (JStr s) = Inr (length s)"
| "py_len _ = Inl TypeError"

subsection \<open>\<^verbatim>\<open>str.replace\<close> and the placeholder\<close>

text \<open>\<^verbatim>\<open>s.replace(old, new)\<close> scans from the left and replaces each occurrence it meets,
  going on behind it. With an empty \<open>old\<close> Python puts \<open>new\<close> before every character and at
  the end.\<close>

function replace_ne :: "string \<Rightarrow> string \<Rightarrow> string \<Rightarrow> string" where
  "replace_ne old new [] = []"
| "replace_ne old new (c # cs) =
     (if old \<noteq> [] \<and> prefix old (c # cs)
      then new @ replace_ne old new (drop (length old) (c # cs))
      else c # replace_ne old new cs)"
  by pat_completeness auto
termination
  by (relation "measure (\<lambda>(old, new, s). length s)") auto

definition str_replace :: "string \<Rightarrow> string \<Rightarrow> string \<Rightarrow> string" where
  "str_replace old new s =
     (if old = [] then new @ concat (map (\<lambda>c. c # new) s) else replace_ne old new s)"

definition placeholder :: string where
  "placeholder = ''${bucket_name}''"

fun replace_placeholders :: "string \<Rightarrow> json \<Rightarrow> json" where
  "replace_placeholders bucket_name (JObj kvs) =
     JObj (map (\<lambda>kv. (fst kv, replace_placeholders bucket_name (snd kv))) kvs)"
| "replace_placeholders bucket_name (JList xs) = JList (map (replace_placeholders bucket_name) xs)"
| "replace_placeholders bucket_name (JStr s) = JStr (str_replace placeholder bucket_name s)"
| "replace_placeholders bucket_name obj = obj"

section \<open>The world of the script: the bucket store and the local files\<close>

text \<open>
  The text of a policy or of a file is kept as the document it decodes to:
  \<^verbatim>\<open>json.dumps\<close> followed by \<^verbatim>\<open>json.loads\<close> gives the document back, so a
  stored text is \<open>Encoded doc\<close> whatever its white space; \<open>Undecodable\<close> stands for any text
  that \<^verbatim>\<open>json.loads\<close> rejects.
\<close>

datatype content = Encoded json | Undecodable

definition json_dumps :: "json \<Rightarrow> content" where
  "json_dumps doc = Encoded doc"

fun json_loads :: "content \<Rightarrow> exn + json" where
  "json_loads (Encoded doc) = Inr doc"
| "json_loads Undecodable = Inl JSONDecodeError"

text \<open>What the store can answer instead of doing a request: a service error
  (\<^verbatim>\<open>ClientError\<close> with its code) or a failure of the transport. The code
  \<^verbatim>\<open>NoSuchBucketPolicy\<close> is not among them: the store gives it when, and only when, the
  bucket has no policy.\<close>

datatype s3_error =
    AccessDenied
  | NoSuchBucket
  | MalformedPolicy
  | SlowDown
  | InternalError
  | TransportError

fun raised :: "s3_error \<Rightarrow> exn" where
  "raised AccessDenied = ClientError ''AccessDenied''"
| "raised NoSuchBucket = ClientError ''NoSuchBucket''"
| "raised MalformedPolicy = ClientError ''MalformedPolicy''"
| "raised SlowDown = ClientError ''SlowDown''"
| "raised InternalError = ClientError ''InternalError''"
| "raised TransportError = ConnectionFault ''EndpointConnectionError''"

datatype s3_write = PutBucketPolicy string content | DeleteBucketPolicy string

record datetime =
  year :: nat
  month :: nat
  day :: nat
  hour :: nat
  minute :: nat
  second :: nat

text \<open>
  \<open>policies\<close> is the policy text that the store holds for each bucket; the three fault fields
  say which requests the store refuses; \<open>requests\<close> lists the put and delete requests sent so
  far; \<open>files\<close> is the local file system and \<open>now\<close> the reading of the clock. Writing a
  local file is taken to succeed.
\<close>

record world =
  policies :: "string \<Rightarrow> content option"
  get_fault :: "string \<Rightarrow> s3_error option"
  put_fault :: "string \<Rightarrow> content \<Rightarrow> s3_error option"
  delete_fault :: "string \<Rightarrow> s3_error option"
  requests :: "s3_write list"
  files :: "string \<Rightarrow> content option"
  now :: datetime

definition get_bucket_policy :: "world \<Rightarrow> string \<Rightarrow> exn + content" where
  "get_bucket_policy w bucket =
     (case get_fault w bucket of
        Some err \<Rightarrow> Inl (raised err)
      | None \<Rightarrow>
          (case policies w bucket of
             None \<Rightarrow> Inl (ClientError ''NoSuchBucketPolicy'')
           | Some policy \<Rightarrow> Inr policy))"

definition put_bucket_policy :: "world \<Rightarrow> string \<Rightarrow> content \<Rightarrow> world \<times> (exn + unit)" where
  "put_bucket_policy w bucket policy =
     (let w' = w\<lparr>requests := requests w @ [PutBucketPolicy bucket policy]\<rparr> in
      case put_fault w bucket policy of
        Some err \<Rightarrow> (w', Inl (raised err))
      | None \<Rightarrow> (w'\<lparr>policies := (policies w)(bucket \<mapsto> policy)\<rparr>, Inr ()))"

definition delete_bucket_policy :: "world \<Rightarrow> string \<Rightarrow> world \<times> (exn + unit)" where
  "delete_bucket_policy w bucket =
     (let w' = w\<lparr>requests := requests w @ [DeleteBucketPolicy bucket]\<rparr> in
      case delete_fault w bucket of
        Some err \<Rightarrow> (w', Inl (raised err))
      | None \<Rightarrow> (w'\<lparr>policies := (policies w)(bucket := None)\<rparr>, Inr ()))"

text \<open>\<^verbatim>\<open>open(path, 'r')\<close> and \<^verbatim>\<open>os.path.join\<close> (POSIX).\<close>

definition open_read :: "world \<Rightarrow> string \<Rightarrow> exn + content" where
  "open_read w path =
     (case files w path of None \<Rightarrow> Inl (FileNotFoundError path) | Some c \<Rightarrow> Inr c)"

definition os_path_join :: "string \<Rightarrow> string \<Rightarrow> string" where
  "os_path_join a b =
     (if prefix ''/'' b then b
      else if a = [] \<or> last a = CHR ''/'' then a @ b
      else a @ ''/'' @ b)"

text \<open>\<^verbatim>\<open>strftime('%Y%m%d_%H%M%S')\<close>: every field zero-padded to its width (for the year,
  on every platform from the year 1000 on).\<close>

definition digit :: "nat \<Rightarrow> char" where
  "digit d = ''0123456789'' ! (d mod 10)"

definition pad2 :: "nat \<Rightarrow> string" where
  "pad2 n = [digit (n div 10), digit n]"

definition pad4 :: "nat \<Rightarrow> string" where
  "pad4 n = [digit (n div 1000), digit (n div 100), digit (n div 10), digit n]"

definition strftime :: "datetime \<Rightarrow> string" where
  "strftime t =
     pad4 (year t) @ pad2 (month t) @ pad2 (day t) @ ''_'' @
     pad2 (hour t) @ pad2 (minute t) @ pad2 (second t)"

section \<open>The operations\<close>

definition get_current_policy :: "world \<Rightarrow> string \<Rightarrow> exn + json" where
  "get_current_policy w bucket_name =
     (case get_bucket_policy w bucket_name of
        Inr policy \<Rightarrow> json_loads policy
      | Inl (ClientError code) \<Rightarrow>
          if code = ''NoSuchBucketPolicy'' then Inr JNull else Inl (ClientError code)
      | Inl e \<Rightarrow> Inl e)"

definition load_policy_template :: "world \<Rightarrow> string \<Rightarrow> string \<Rightarrow> exn + json" where
  "load_policy_template w template_name bucket_name =
     (let templates_dir = ''policy_templates'';
          template_path = os_path_join templates_dir (template_name @ ''.json'')
      in case open_read w template_path of
           Inl (FileNotFoundError _) \<Rightarrow> Inl (SystemExit 1)
         | Inl e \<Rightarrow> Inl e
         | Inr c \<Rightarrow>
             (case json_loads c of
                Inl JSONDecodeError \<Rightarrow> Inl (SystemExit 1)
              | Inl e \<Rightarrow> Inl e
              | Inr template \<Rightarrow> Inr (replace_placeholders bucket_name template)))"

definition backup_policy :: "world \<Rightarrow> json \<Rightarrow> string \<Rightarrow> string \<Rightarrow> world \<times> string option" where
  "backup_policy w policy bucket_name account_id =
     (if truthy policy then
        let backup_dir = ''policy_backups_'' @ account_id;
            timestamp = strftime (now w);
            filename = os_path_join backup_dir
              (''bucket_policy_backup_'' @ bucket_name @ ''_'' @ timestamp @ ''.json'')
        in (w\<lparr>files := (files w)(filename \<mapsto> json_dumps policy)\<rparr>, Some filename)
      else (w, None))"

text \<open>The result entry of a bucket: \<^verbatim>\<open>status\<close> with the backup file, the message or
  the error.\<close>

datatype skip_reason = SidExists json | SidNotFound string | NoPolicyExists

datatype outcome = Success "string option" | Skipped skip_reason | Error exn

text \<open>\<^verbatim>\<open>new_policy_statement['Statement'][0]['Sid']\<close>.\<close>

definition template_sid :: "json \<Rightarrow> exn + json" where
  "template_sid new_policy_statement =
     (case getitem new_policy_statement ''Statement'' of
        Inl e \<Rightarrow> Inl e
      | Inr stmts \<Rightarrow>
          (case getitem0 stmts of
             Inl e \<Rightarrow> Inl e
           | Inr stmt \<Rightarrow> getitem stmt ''Sid''))"

text \<open>The generator under \<^verbatim>\<open>any\<close>: for each statement the left operand, then the right
  one, then the comparison; \<^verbatim>\<open>any\<close> stops at the first true one.\<close>

fun any_sid_equal :: "json list \<Rightarrow> json \<Rightarrow> exn + bool" where
  "any_sid_equal [] new_policy_statement = Inr False"
| "any_sid_equal (stmt # rest) new_policy_statement =
     (case dict_get stmt ''Sid'' of
        Inl e \<Rightarrow> Inl e
      | Inr sid \<Rightarrow>
          (case template_sid new_policy_statement of
             Inl e \<Rightarrow> Inl e
           | Inr new_sid \<Rightarrow>
               if py_eq sid new_sid then Inr True
               else any_sid_equal rest new_policy_statement))"

definition policy_exists :: "json \<Rightarrow> json \<Rightarrow> exn + bool" where
  "policy_exists current_policy new_policy_statement =
     (case getitem current_policy ''Statement'' of
        Inl e \<Rightarrow> Inl e
      | Inr stmts \<Rightarrow>
          (case py_iter stmts of
             Inl e \<Rightarrow> Inl e
           | Inr items \<Rightarrow> any_sid_equal items new_policy_statement))"

text \<open>\<^verbatim>\<open>current_policy['Statement'].extend(new_policy_statement['Statement'])\<close>: only a
  list has \<^verbatim>\<open>extend\<close>, and it takes any iterable.\<close>

definition extend_statement :: "json \<Rightarrow> json \<Rightarrow> exn + json" where
  "extend_statement current_policy new_policy_statement =
     (case getitem current_policy ''Statement'' of
        Inl e \<Rightarrow> Inl e
      | Inr (JList stmts) \<Rightarrow>
          (case getitem new_policy_statement ''Statement'' of
             Inl e \<Rightarrow> Inl e
           | Inr new_stmts \<Rightarrow>
               (case py_iter new_stmts of
                  Inl e \<Rightarrow> Inl e
                | Inr items \<Rightarrow> setitem current_policy ''Statement'' (JList (stmts @ items))))
      | Inr _ \<Rightarrow> Inl AttributeError)"

text \<open>The body of the \<^verbatim>\<open>try\<close> in \<^verbatim>\<open>apply_policy\<close>, for one bucket. The world comes
  back also when an exception is raised: a backup written before it stays written.\<close>

definition apply_body ::
  "world \<Rightarrow> string \<Rightarrow> string \<Rightarrow> bool \<Rightarrow> string \<Rightarrow> world \<times> (exn + outcome)" where
  "apply_body w bucket_name template_name backup account_id =
     (case get_current_policy w bucket_name of
        Inl e \<Rightarrow> (w, Inl e)
      | Inr current_policy \<Rightarrow>
          (case (if backup \<and> truthy current_policy
                 then backup_policy w current_policy bucket_name account_id
                 else (w, None)) of
             (w1, backup_file) \<Rightarrow>
               (case load_policy_template w1 template_name bucket_name of
                  Inl e \<Rightarrow> (w1, Inl e)
                | Inr new_policy_statement \<Rightarrow>
                    (case (if truthy current_policy then
                             (case policy_exists current_policy new_policy_statement of
                                Inl e \<Rightarrow> Inl e
                              | Inr True \<Rightarrow>
                                  (case template_sid new_policy_statement of
                                     Inl e \<Rightarrow> Inl e
                                   | Inr new_sid \<Rightarrow> Inr (Inl (Skipped (SidExists new_sid))))
                              | Inr False \<Rightarrow>
                                  (case extend_statement current_policy new_policy_statement of
                                     Inl e \<Rightarrow> Inl e
                                   | Inr final_policy \<Rightarrow> Inr (Inr final_policy)))
                           else Inr (Inr new_policy_statement)) of
                       Inl e \<Rightarrow> (w1, Inl e)
                     | Inr (Inl skipped) \<Rightarrow> (w1, Inr skipped)
                     | Inr (Inr final_policy) \<Rightarrow>
                         (case put_bucket_policy w1 bucket_name (json_dumps final_policy) of
                            (w2, Inl e) \<Rightarrow> (w2, Inl e)
                          | (w2, Inr _) \<Rightarrow> (w2, Inr (Success backup_file)))))))"

text \<open>\<^verbatim>\<open>except Exception\<close>: every exception but \<^verbatim>\<open>SystemExit\<close> becomes the error
  entry of the bucket.\<close>

definition except_Exception :: "world \<times> (exn + outcome) \<Rightarrow> world \<times> (exn + outcome)" where
  "except_Exception r =
     (case r of
        (w, Inl e) \<Rightarrow> if is_Exception e then (w, Inr (Error e)) else (w, Inl e)
      | (w, Inr entry) \<Rightarrow> (w, Inr entry))"

text \<open>The loop over the bucket list, with the results dict built so far. It ends with the
  dict, or with the \<^verbatim>\<open>SystemExit\<close> that ended the process.\<close>

fun apply_loop ::
  "world \<Rightarrow> string list \<Rightarrow> string \<Rightarrow> bool \<Rightarrow> string \<Rightarrow> (string \<rightharpoonup> outcome) \<Rightarrow>
   world \<times> (exn + (string \<rightharpoonup> outcome))" where
  "apply_loop w [] template_name backup account_id results = (w, Inr results)"
| "apply_loop w (bucket_name # rest) template_name backup account_id results =
     (case except_Exception (apply_body w bucket_name template_name backup account_id) of
        (w', Inl e) \<Rightarrow> (w', Inl e)
      | (w', Inr entry) \<Rightarrow>
          apply_loop w' rest template_name backup account_id (results(bucket_name \<mapsto> entry)))"

definition apply_policy ::
  "world \<Rightarrow> string list \<Rightarrow> string \<Rightarrow> bool \<Rightarrow> string \<Rightarrow>
   world \<times> (exn + (string \<rightharpoonup> outcome))" where
  "apply_policy w bucket_list template_name backup account_id =
     apply_loop w bucket_list template_name backup account_id Map.empty"

text \<open>The list comprehension of \<^verbatim>\<open>remove_policy\<close>: the statements whose
  \<^verbatim>\<open>stmt.get('Sid')\<close> differs from \<open>sid\<close>, in their order.\<close>

fun keep_other_sids :: "json list \<Rightarrow> string \<Rightarrow> exn + json list" where
  "keep_other_sids [] sid = Inr []"
| "keep_other_sids (stmt # rest) sid =
     (case dict_get stmt ''Sid'' of
        Inl e \<Rightarrow> Inl e
      | Inr v \<Rightarrow>
          (case keep_other_sids rest sid of
             Inl e \<Rightarrow> Inl e
           | Inr kept \<Rightarrow> Inr (if \<not> py_eq v (JStr sid) then stmt # kept else kept)))"

definition remove_body :: "world \<Rightarrow> string \<Rightarrow> string \<Rightarrow> world \<times> (exn + outcome)" where
  "remove_body w bucket_name sid =
     (case get_current_policy w bucket_name of
        Inl e \<Rightarrow> (w, Inl e)
      | Inr current_policy \<Rightarrow>
          if truthy current_policy then
            (case getitem current_policy ''Statement'' of
               Inl e \<Rightarrow> (w, Inl e)
             | Inr stmts \<Rightarrow>
                 (case py_len stmts of
                    Inl e \<Rightarrow> (w, Inl e)
                  | Inr original_count \<Rightarrow>
                      (case py_iter stmts of
                         Inl e \<Rightarrow> (w, Inl e)
                       | Inr items \<Rightarrow>
                           (case keep_other_sids items sid of
                              Inl e \<Rightarrow> (w, Inl e)
                            | Inr kept \<Rightarrow>
                                (case setitem current_policy ''Statement'' (JList kept) of
                                   Inl e \<Rightarrow> (w, Inl e)
                                 | Inr final_policy \<Rightarrow>
                                     if length kept = original_count
                                     then (w, Inr (Skipped (SidNotFound sid)))
                                     else
                                       (case (if kept \<noteq> []
                                              then put_bucket_policy w bucket_name
                                                     (json_dumps final_policy)
                                              else delete_bucket_policy w bucket_name) of
                                          (w', Inl e) \<Rightarrow> (w', Inl e)
                                        | (w', Inr _) \<Rightarrow> (w', Inr (Success None))))))))
          else (w, Inr (Skipped NoPolicyExists)))"

fun remove_loop ::
  "world \<Rightarrow> string list \<Rightarrow> string \<Rightarrow> (string \<rightharpoonup> outcome) \<Rightarrow>
   world \<times> (exn + (string \<rightharpoonup> outcome))" where
  "remove_loop w [] sid results = (w, Inr results)"
| "remove_loop w (bucket_name # rest) sid results =
     (case except_Exception (remove_body w bucket_name sid) of
        (w', Inl e) \<Rightarrow> (w', Inl e)
      | (w', Inr entry) \<Rightarrow> remove_loop w' rest sid (results(bucket_name \<mapsto> entry)))"

definition remove_policy ::
  "world \<Rightarrow> string list \<Rightarrow> string \<Rightarrow> world \<times> (exn + (string \<rightharpoonup> outcome))" where
  "remove_policy w bucket_list sid = remove_loop w bucket_list sid Map.empty"

text \<open>\<^verbatim>\<open>restore_policy\<close> catches every exception of its body and returns the entry.\<close>

definition restore_policy :: "world \<Rightarrow> string \<Rightarrow> string \<Rightarrow> world \<times> outcome" where
  "restore_policy w bucket_name backup_file =
     (case open_read w backup_file of
        Inl e \<Rightarrow> (w, Error e)
      | Inr c \<Rightarrow>
          (case json_loads c of
             Inl e \<Rightarrow> (w, Error e)
           | Inr policy \<Rightarrow>
               (case put_bucket_policy w bucket_name (json_dumps policy) of
                  (w', Inl e) \<Rightarrow> (w', Error e)
                | (w', Inr _) \<Rightarrow> (w', Success None))))"

section \<open>Observations used in the statements\<close>

text \<open>A place in a document: the keys and indices that lead to it.\<close>

datatype step = Key string | Index nat

fun json_at :: "step list \<Rightarrow> json \<Rightarrow> json option" where
  "json_at [] v = Some v"
| "json_at (Key k # p) (JObj kvs) =
     (case map_of kvs k of None \<Rightarrow> None | Some v \<Rightarrow> json_at p v)"
| "json_at (Index i # p) (JList xs) = (if i < length xs then json_at p (xs ! i) else None)"
| "json_at (s # p) v = None"

text \<open>
  "Every occurrence of \<open>old\<close> is replaced by \<open>new\<close>", said without the scan: a string in which
  \<open>old\<close> does not occur stays as it is; otherwise the string is cut at the leftmost occurrence
  (\<open>old\<close> does not occur in \<open>pre\<close> followed by all but the last character of \<open>old\<close>), that
  occurrence becomes \<open>new\<close>, and every occurrence in the rest is replaced in the same way.
\<close>

inductive replaced_all :: "string \<Rightarrow> string \<Rightarrow> string \<Rightarrow> string \<Rightarrow> bool"
  for old new where
  no_occurrence: "\<not> sublist old s \<Longrightarrow> replaced_all old new s s"
| leftmost: "\<not> sublist old (pre @ butlast old) \<Longrightarrow> replaced_all old new rest rest' \<Longrightarrow>
     replaced_all old new (pre @ old @ rest) (pre @ new @ rest')"

text \<open>The shape of a backup path in the specification's words: the directory of the account,
  the bucket, and a time stamp of 14 digits before the extension.\<close>

definition is_digit :: "char \<Rightarrow> bool" where
  "is_digit c = (c \<in> set ''0123456789'')"

definition claimed_backup_path :: "string \<Rightarrow> string \<Rightarrow> string \<Rightarrow> bool" where
  "claimed_backup_path account_id bucket_name path =
     (let pre = ''policy_backups_'' @ account_id @ ''/bucket_policy_backup_'' @ bucket_name @ ''_'';
          ts = take 14 (drop (length pre) path)
      in path = pre @ ts @ ''.json'' \<and> length ts = 14 \<and> list_all is_digit ts)"

text \<open>
  The data model of the specification: a policy document is an object whose \<^verbatim>\<open>Statement\<close>
  is a list of objects; the store does not hold a policy with an empty list. \<open>sid_equals\<close>
  says that a statement carries a \<^verbatim>\<open>Sid\<close> equal to a given value (a statement without
  the key has the \<^verbatim>\<open>Sid\<close> \<^verbatim>\<open>None\<close>).
\<close>

fun is_dict :: "json \<Rightarrow> bool" where
  "is_dict (JObj kvs) = True"
| "is_dict _ = False"

definition policy_document :: "json \<Rightarrow> json list \<Rightarrow> bool" where
  "policy_document doc stmts =
     (getitem doc ''Statement'' = Inr (JList stmts) \<and> stmts \<noteq> [] \<and> list_all is_dict stmts)"

definition sid_equals :: "json \<Rightarrow> json \<Rightarrow> bool" where
  "sid_equals stmt v = (case dict_get stmt ''Sid'' of Inl e \<Rightarrow> False | Inr x \<Rightarrow> py_eq x v)"

text \<open>A removal that would use only the first statement with the given \<^verbatim>\<open>Sid\<close>.\<close>

fun remove_first_match :: "json list \<Rightarrow> string \<Rightarrow> json list" where
  "remove_first_match [] sid = []"
| "remove_first_match (stmt # rest) sid =
     (if sid_equals stmt (JStr sid) then rest else stmt # remove_first_match rest sid)"

text \<open>The path of a template file, and the number of statements of the policy that the store
  holds for a bucket (when it holds a document whose \<^verbatim>\<open>Statement\<close> can be counted).\<close>

definition template_path :: "string \<Rightarrow> string" where
  "template_path template_name = os_path_join ''policy_templates'' (template_name @ ''.json'')"

definition statement_count :: "world \<Rightarrow> string \<Rightarrow> nat option" where
  "statement_count w bucket =
     (case policies w bucket of
        Some (Encoded doc) \<Rightarrow>
          (case getitem doc ''Statement'' of
             Inr stmts \<Rightarrow> (case py_len stmts of Inr n \<Rightarrow> Some n | Inl e \<Rightarrow> None)
           | Inl e \<Rightarrow> None)
      | _ \<Rightarrow> None)"

section \<open>Example inputs\<close>

text \<open>The template of the specification's example.\<close>

definition example_template :: json where
  "example_template =
     JObj [(''Statement'', JList [JObj [
        (''Sid'', JStr ''AllowRead''),
        (''Effect'', JStr ''Allow''),
        (''Action'', JStr ''s3:GetObject''),
        (''Resource'', JStr ''arn:aws:s3:::${bucket_name}/*'')]])]"

text \<open>A store with no policies and no faults, an empty file system, and the clock at
  2024-01-02 03:04:05.\<close>

definition example_clock :: datetime where
  "example_clock = \<lparr>year = 2024, month = 1, day = 2, hour = 3, minute = 4, second = 5\<rparr>"

definition quiet_world :: world where
  "quiet_world =
     \<lparr>policies = (\<lambda>bucket. None), get_fault = (\<lambda>bucket. None),
      put_fault = (\<lambda>bucket policy. None), delete_fault = (\<lambda>bucket. None),
      requests = [], files = (\<lambda>path. None), now = example_clock\<rparr>"

text \<open>The example template, loaded for the bucket \<^verbatim>\<open>my-bucket\<close>.\<close>

definition read_policy :: json where
  "read_policy =
     JObj [(''Statement'', JList [JObj [
        (''Sid'', JStr ''AllowRead''),
        (''Effect'', JStr ''Allow''),
        (''Action'', JStr ''s3:GetObject''),
        (''Resource'', JStr ''arn:aws:s3:::my-bucket/*'')]])]"

text \<open>Two statements that share a \<^verbatim>\<open>Sid\<close>, and a third with another one.\<close>

definition allow_stmt :: json where
  "allow_stmt = JObj [(''Sid'', JStr ''AllowRead''), (''Effect'', JStr ''Allow'')]"

definition deny_stmt :: json where
  "deny_stmt = JObj [(''Sid'', JStr ''AllowRead''), (''Effect'', JStr ''Deny'')]"

definition other_stmt :: json where
  "other_stmt = JObj [(''Sid'', JStr ''AllowWrite''), (''Effect'', JStr ''Allow'')]"

text \<open>The quiet world with one policy stored for \<^verbatim>\<open>my-bucket\<close>.\<close>

definition world_with :: "json \<Rightarrow> world" where
  "world_with doc = quiet_world\<lparr>policies := [''my-bucket'' \<mapsto> Encoded doc]\<rparr>"

definition two_policy :: json where
  "two_policy = JObj [(''Version'', JStr ''2012-10-17''), (''Statement'', JList [allow_stmt, other_stmt])]"

definition duplicate_policy :: json where
  "duplicate_policy = JObj [(''Statement'', JList [allow_stmt, deny_stmt])]"

text \<open>The example template as the file \<^verbatim>\<open>policy_templates/read.json\<close>, and a template
  whose only statement has no \<^verbatim>\<open>Sid\<close> as \<^verbatim>\<open>policy_templates/nosid.json\<close>.\<close>

definition sidless_template :: json where
  "sidless_template =
     JObj [(''Statement'', JList [JObj [
        (''Effect'', JStr ''Allow''),
        (''Resource'', JStr ''arn:aws:s3:::${bucket_name}/*'')]])]"

definition with_templates :: "world \<Rightarrow> world" where
  "with_templates w =
     w\<lparr>files := (files w)(''policy_templates/read.json'' \<mapsto> Encoded example_template,
                            ''policy_templates/nosid.json'' \<mapsto> Encoded sidless_template)\<rparr>"

definition write_policy :: json where
  "write_policy = JObj [(''Version'', JStr ''2012-10-17''), (''Statement'', JList [other_stmt])]"

definition backup_path :: string where
  "backup_path = ''policy_backups_123456789012/bucket_policy_backup_my-bucket_20240102_030405.json''"

text \<open>A store that denies access to one bucket, cannot be reached for another, holds an
  undecodable policy text for a third, and a policy document for \<^verbatim>\<open>my-bucket\<close>.\<close>

definition troubled_world :: world where
  "troubled_world =
     (with_templates quiet_world)
       \<lparr>policies := [''garbled'' \<mapsto> Undecodable, ''my-bucket'' \<mapsto> Encoded write_policy],
        get_fault := [''denied'' \<mapsto> AccessDenied, ''offline'' \<mapsto> TransportError]\<rparr>"

text \<open>A document with every kind of value.\<close>

definition mixed_document :: json where
  "mixed_document =
     JObj [(''name'', JStr ''${bucket_name}-${bucket_name}''),
           (''size'', JInt 3), (''ratio'', JFloat (1 / 2)), (''on'', JBool True), (''none'', JNull),
           (''tags'', JList [JStr ''a'', JStr ''${bucket_name}''])]"

section \<open>Unfolding the examples and the operations\<close>

lemmas example_defs = world_with_def quiet_world_def example_clock_def read_policy_def
  allow_stmt_def deny_stmt_def other_stmt_def two_policy_def duplicate_policy_def
  example_template_def sidless_template_def with_templates_def write_policy_def backup_path_def
  troubled_world_def mixed_document_def

lemmas remove_defs = remove_policy_def except_Exception_def remove_body_def
  get_current_policy_def get_bucket_policy_def put_bucket_policy_def delete_bucket_policy_def
  json_dumps_def sid_equals_def policy_document_def Let_def

lemmas apply_defs = apply_policy_def except_Exception_def apply_body_def
  get_current_policy_def get_bucket_policy_def put_bucket_policy_def
  load_policy_template_def open_read_def backup_policy_def policy_exists_def
  template_sid_def extend_statement_def os_path_join_def strftime_def pad2_def pad4_def digit_def
  str_replace_def placeholder_def json_dumps_def Let_def

section \<open>Placeholder substitution\<close>

subsection \<open>\<^verbatim>\<open>str.replace\<close> replaces every occurrence\<close>

lemma not_sublist_butlast: "old \<noteq> [] \<Longrightarrow> \<not> sublist old (butlast old)"
  using sublist_length_le[of old "butlast old"] by (cases old) auto

lemma replaced_all_Cons:
  assumes r: "replaced_all old new cs t" and np: "\<not> prefix old (c # cs)"
  shows "replaced_all old new (c # cs) (c # t)"
  using r
proof cases
  case no_occurrence
  with np have "\<not> sublist old (c # cs)" by (simp add: sublist_Cons_right)
  then show ?thesis using no_occurrence by (simp add: replaced_all.no_occurrence)
next
  case (leftmost pre rest rest')
  have "\<not> prefix old (c # pre @ butlast old)"
  proof
    assume "prefix old (c # pre @ butlast old)"
    moreover have "prefix (c # pre @ butlast old) (c # cs)"
      unfolding leftmost
      by (metis Cons_prefix_Cons append.assoc append_butlast_last_id append_Nil2 butlast.simps(1) prefixI same_prefix_prefix)
    ultimately show False using np by (meson prefix_order.trans)
  qed
  with leftmost have "\<not> sublist old ((c # pre) @ butlast old)"
    by (simp add: sublist_Cons_right)
  from replaced_all.leftmost[OF this leftmost(4)] show ?thesis
    using leftmost by simp
qed

lemma replace_ne_replaced_all: "old \<noteq> [] \<Longrightarrow> replaced_all old new s (replace_ne old new s)"
proof (induction old new s rule: replace_ne.induct)
  case (1 old new)
  then show ?case by (simp add: replaced_all.no_occurrence)
next
  case (2 old new c cs)
  show ?case
  proof (cases "prefix old (c # cs)")
    case True
    then obtain rest where rest: "c # cs = old @ rest" by (auto simp: prefix_def)
    then have d: "drop (length old) (c # cs) = rest" by simp
    from 2 True have ih: "replaced_all old new rest (replace_ne old new rest)" using d by simp
    have "\<not> sublist old ([] @ butlast old)" using 2(3) not_sublist_butlast by simp
    from replaced_all.leftmost[OF this ih]
    have "replaced_all old new (old @ rest) (new @ replace_ne old new rest)" by simp
    moreover have "replace_ne old new (c # cs) = new @ replace_ne old new rest"
      using True 2(3) d by simp
    ultimately show ?thesis using rest by simp
  next
    case False
    with 2 have "replaced_all old new cs (replace_ne old new cs)" by simp
    from replaced_all_Cons[OF this False] show ?thesis using False by simp
  qed
qed

lemma leftmost_unique:
  assumes eq: "pre @ old @ rest = pre2 @ old @ rest2"
    and l1: "\<not> sublist old (pre @ butlast old)" and l2: "\<not> sublist old (pre2 @ butlast old)"
    and ne: "old \<noteq> []"
  shows "pre = pre2 \<and> rest = rest2"
proof -
  have aux: "length q \<le> length p"
    if e: "p @ old @ r = q @ old @ r'" and l: "\<not> sublist old (q @ butlast old)"
    for p q r r'
  proof (rule ccontr)
    assume "\<not> length q \<le> length p"
    then have lt: "length p < length q" by simp
    define n where "n = length q + (length old - 1)"
    have "take n (q @ old @ r') = q @ butlast old"
      by (simp add: n_def butlast_conv_take)
    moreover have "length p + length old \<le> n" using lt ne by (cases old) (auto simp: n_def)
    then have "take n (p @ old @ r) = p @ old @ take (n - length p - length old) r"
      by simp
    ultimately have "q @ butlast old = p @ old @ take (n - length p - length old) r"
      using e by simp
    then have "sublist old (q @ butlast old)" by simp
    with l show False by simp
  qed
  have "length pre = length pre2"
    using aux[OF eq l2] aux[OF eq[symmetric] l1] by simp
  with eq show ?thesis by simp
qed

lemma replaced_all_unique:
  assumes "replaced_all old new s t" and "replaced_all old new s t'" and ne: "old \<noteq> []"
  shows "t = t'"
  using assms(1,2)
proof (induction arbitrary: t' rule: replaced_all.induct)
  case (no_occurrence s)
  from no_occurrence(2) show ?case
  proof cases
    case no_occurrence
    then show ?thesis by simp
  next
    case (leftmost pre rest rest')
    with no_occurrence(1) show ?thesis by simp
  qed
next
  case (leftmost pre rest rest')
  from leftmost(4) show ?case
  proof cases
    case no_occurrence
    then have "\<not> sublist old (pre @ old @ rest)" by simp
    then show ?thesis by simp
  next
    case (leftmost pre2 rest2 rest2')
    from leftmost_unique[OF leftmost(1) \<open>\<not> sublist old (pre @ butlast old)\<close> leftmost(3) ne]
    have "pre = pre2" "rest = rest2" by simp_all
    with leftmost leftmost.IH show ?thesis by simp
  qed
qed

lemma str_replace_iff:
  "old \<noteq> [] \<Longrightarrow> replaced_all old new s t \<longleftrightarrow> t = str_replace old new s"
  using replace_ne_replaced_all replaced_all_unique by (auto simp: str_replace_def)

subsection \<open>The substitution reaches every place of the document\<close>

lemma map_of_map_values:
  "map_of (map (\<lambda>kv. (fst kv, f (snd kv))) kvs) k = map_option f (map_of kvs k)"
  by (induction kvs) auto

lemma json_at_replace_placeholders:
  "json_at p (replace_placeholders b doc) = map_option (replace_placeholders b) (json_at p doc)"
proof (induction p doc rule: json_at.induct)
  case (2 k p kvs)
  show ?case
  proof (cases "map_of kvs k")
    case None
    then show ?thesis by (simp add: map_of_map_values)
  next
    case (Some v)
    then have "(k, v) \<in> set kvs" by (rule map_of_SomeD)
    with 2 Some show ?thesis by (simp add: map_of_map_values)
  qed
qed (auto)

lemma placeholder_ne: "placeholder \<noteq> []" by (simp add: placeholder_def)

lemma example_resource:
  "json_at [Key ''Statement'', Index 0, Key ''Resource'']
          (replace_placeholders ''my-bucket'' example_template) = Some (JStr ''arn:aws:s3:::my-bucket/*'')"
  by (simp add: example_template_def str_replace_def placeholder_def)

text \<open>
  Claim C3. Loading a template file that holds a document returns the document with the bucket
  name substituted, and the substitution reaches every place of the document: where
  the template has a string, the loaded document has that string with every occurrence of
  \<^verbatim>\<open>${bucket_name}\<close> replaced by the bucket name; where it has an object, the loaded
  document has an object with the same keys in the same order; where it has a list, a list of the
  same length; where it has \<^verbatim>\<open>null\<close>, a boolean or a number, the same value; and where
  it has nothing, nothing.
\<close>

theorem placeholder_substitution:
  "(files w (template_path template_name) = Some (Encoded doc) \<longrightarrow>
      load_policy_template w template_name bucket_name = Inr (replace_placeholders bucket_name doc)) \<and>
   (json_at p doc = None \<longrightarrow> json_at p (replace_placeholders bucket_name doc) = None) \<and>
   (\<forall>s. json_at p doc = Some (JStr s) \<longrightarrow>
      (\<exists>t. json_at p (replace_placeholders bucket_name doc) = Some (JStr t) \<and>
           replaced_all placeholder bucket_name s t)) \<and>
   (\<forall>kvs. json_at p doc = Some (JObj kvs) \<longrightarrow>
      (\<exists>kvs'. json_at p (replace_placeholders bucket_name doc) = Some (JObj kvs') \<and>
           map fst kvs' = map fst kvs)) \<and>
   (\<forall>xs. json_at p doc = Some (JList xs) \<longrightarrow>
      (\<exists>xs'. json_at p (replace_placeholders bucket_name doc) = Some (JList xs') \<and>
           length xs' = length xs)) \<and>
   (\<forall>v. json_at p doc = Some v \<longrightarrow> v = JNull \<or> (\<exists>b. v = JBool b) \<or> (\<exists>i. v = JInt i) \<or> (\<exists>r. v = JFloat r) \<longrightarrow>
      json_at p (replace_placeholders bucket_name doc) = Some v)"
  using replace_ne_replaced_all[OF placeholder_ne, of bucket_name]
  by (auto simp: json_at_replace_placeholders str_replace_def placeholder_ne comp_def
        load_policy_template_def open_read_def template_path_def)

theorem placeholder_substitution_witness:
  "files (with_templates quiet_world) (template_path ''read'') = Some (Encoded example_template) \<and>
   load_policy_template (with_templates quiet_world) ''read'' ''my-bucket'' = Inr read_policy \<and>
   json_at [Key ''Statement'', Index 0, Key ''Resource''] example_template
     = Some (JStr ''arn:aws:s3:::${bucket_name}/*'') \<and>
   (\<exists>t. json_at [Key ''Statement'', Index 0, Key ''Resource'']
          (replace_placeholders ''my-bucket'' example_template) = Some (JStr t) \<and>
        replaced_all placeholder ''my-bucket'' ''arn:aws:s3:::${bucket_name}/*'' t) \<and>
   json_at [Key ''size''] mixed_document = Some (JInt 3) \<and>
   json_at [Key ''size''] (replace_placeholders ''my-bucket'' mixed_document) = Some (JInt 3) \<and>
   json_at [Key ''tags''] mixed_document = Some (JList [JStr ''a'', JStr ''${bucket_name}'']) \<and>
   (\<exists>xs'. json_at [Key ''tags''] (replace_placeholders ''my-bucket'' mixed_document)
            = Some (JList xs') \<and> length xs' = 2) \<and>
   (\<exists>kvs'. json_at [] (replace_placeholders ''my-bucket'' mixed_document) = Some (JObj kvs') \<and>
      map fst kvs' = [''name'', ''size'', ''ratio'', ''on'', ''none'', ''tags'']) \<and>
   json_at [Key ''owner''] mixed_document = None \<and>
   json_at [Key ''owner''] (replace_placeholders ''my-bucket'' mixed_document) = None"
  using placeholder_substitution[where p = "[Key ''Statement'', Index 0, Key ''Resource'']"
      and doc = example_template and bucket_name = "''my-bucket''"
      and w = "with_templates quiet_world" and template_name = "''read''"]
    placeholder_substitution[where p = "[Key ''size'']" and doc = mixed_document
      and bucket_name = "''my-bucket''"]
    placeholder_substitution[where p = "[Key ''tags'']" and doc = mixed_document
      and bucket_name = "''my-bucket''"]
    placeholder_substitution[where p = "[]" and doc = mixed_document
      and bucket_name = "''my-bucket''"]
    placeholder_substitution[where p = "[Key ''owner'']" and doc = mixed_document
      and bucket_name = "''my-bucket''"]
  by (simp add: example_defs template_path_def os_path_join_def load_policy_template_def
      open_read_def str_replace_def placeholder_def)

section \<open>Backup and restore\<close>

lemma is_digit_digit: "is_digit (digit n)"
proof -
  have "n mod 10 < length ''0123456789''" by simp
  then have "''0123456789'' ! (n mod 10) \<in> set ''0123456789''" by (rule nth_mem)
  then show ?thesis by (simp only: is_digit_def digit_def)
qed

lemma strftime_shape:
  "\<exists>date time. strftime t = date @ ''_'' @ time \<and> length date = 8 \<and> length time = 6 \<and>
     list_all is_digit (date @ time)"
proof -
  let ?date = "pad4 (year t) @ pad2 (month t) @ pad2 (day t)"
  let ?time = "pad2 (hour t) @ pad2 (minute t) @ pad2 (second t)"
  have "strftime t = ?date @ ''_'' @ ?time" by (simp add: strftime_def)
  moreover have "length ?date = 8" "length ?time = 6" by (simp_all add: pad2_def pad4_def)
  moreover have "list_all is_digit (?date @ ?time)"
    by (simp add: pad2_def pad4_def is_digit_digit)
  ultimately show ?thesis by blast
qed

lemma backup_path_join:
  "\<not> suffix ''/'' account_id \<Longrightarrow>
   os_path_join (''policy_backups_'' @ account_id) (''bucket_policy_backup_'' @ rest)
     = ''policy_backups_'' @ account_id @ ''/bucket_policy_backup_'' @ rest"
  by (cases account_id rule: rev_cases) (auto simp: os_path_join_def)

text \<open>
  Claim C7, as amended. For a policy that is not empty and an account id that does not end in a
  slash, the backup is written to
  \<^verbatim>\<open>policy_backups_<account>/bucket_policy_backup_<bucket>_<date>_<time>.json\<close>, where the
  date is 8 digits and the time 6 digits (14 digits, with an underscore between the two groups);
  the file holds the policy, nothing else changes, and the path is returned. For an empty policy or
  none, nothing is written and \<^verbatim>\<open>None\<close> is returned.
\<close>

theorem backup_naming:
  "(truthy policy \<and> \<not> suffix ''/'' account_id \<longrightarrow>
      (\<exists>date time path.
         path = ''policy_backups_'' @ account_id @ ''/bucket_policy_backup_'' @ bucket_name @ ''_''
                  @ date @ ''_'' @ time @ ''.json'' \<and>
         length date = 8 \<and> length time = 6 \<and> list_all is_digit (date @ time) \<and>
         backup_policy w policy bucket_name account_id
           = (w\<lparr>files := (files w)(path \<mapsto> Encoded policy)\<rparr>, Some path))) \<and>
   (\<not> truthy policy \<longrightarrow> backup_policy w policy bucket_name account_id = (w, None))"
proof -
  obtain date time where dt: "strftime (now w) = date @ ''_'' @ time" "length date = 8"
    "length time = 6" "list_all is_digit (date @ time)"
    using strftime_shape by blast
  show ?thesis
    using dt(2-4) backup_path_join[of account_id "bucket_name @ ''_'' @ date @ ''_'' @ time @ ''.json''"]
    by (auto simp: backup_policy_def dt(1) json_dumps_def Let_def)
qed

theorem backup_naming_witness:
  "truthy read_policy \<and> \<not> suffix ''/'' ''123456789012'' \<and>
   (\<exists>date time path.
         path = ''policy_backups_'' @ ''123456789012'' @ ''/bucket_policy_backup_'' @ ''my-bucket'' @ ''_''
                  @ date @ ''_'' @ time @ ''.json'' \<and>
         length date = 8 \<and> length time = 6 \<and> list_all is_digit (date @ time) \<and>
         backup_policy quiet_world read_policy ''my-bucket'' ''123456789012''
           = (quiet_world\<lparr>files := (files quiet_world)(path \<mapsto> Encoded read_policy)\<rparr>, Some path)) \<and>
   \<not> truthy JNull \<and> backup_policy quiet_world JNull ''my-bucket'' ''123456789012'' = (quiet_world, None)"
  using backup_naming[of read_policy "''123456789012''" "''my-bucket''" quiet_world]
    backup_naming[of JNull "''123456789012''" "''my-bucket''" quiet_world]
  by (simp add: read_policy_def suffix_def)

text \<open>The path that the code produces at the example clock has the underscore, so it is not of the
  shape "14 digits before the extension".\<close>

theorem backup_naming_counterexample:
  "snd (backup_policy quiet_world read_policy ''my-bucket'' ''123456789012'')
     = Some ''policy_backups_123456789012/bucket_policy_backup_my-bucket_20240102_030405.json'' \<and>
   \<not> claimed_backup_path ''123456789012'' ''my-bucket''
       ''policy_backups_123456789012/bucket_policy_backup_my-bucket_20240102_030405.json''"
  by (simp add: backup_policy_def quiet_world_def read_policy_def
      os_path_join_def strftime_def example_clock_def pad2_def pad4_def digit_def
      claimed_backup_path_def is_digit_def Let_def)

text \<open>
  Claim C6. The file that a backup of a non-empty policy wrote holds that policy; restoring from
  it, in any later world where the file is intact and the store accepts the request, sends one
  put request with exactly that document and makes it the stored policy of the target bucket,
  whatever the bucket held before.
\<close>

theorem restore_round_trip:
  "truthy policy \<and> backup_policy w policy bucket_name account_id = (w1, backup_file) \<longrightarrow>
     (\<exists>path. backup_file = Some path \<and> files w1 path = Some (Encoded policy) \<and>
        (\<forall>w2 target.
           files w2 path = files w1 path \<and> put_fault w2 target (Encoded policy) = None \<longrightarrow>
           restore_policy w2 target path
             = (w2\<lparr>requests := requests w2 @ [PutBucketPolicy target (Encoded policy)],
                   policies := (policies w2)(target \<mapsto> Encoded policy)\<rparr>,
                Success None)))"
  by (auto simp: backup_policy_def restore_policy_def open_read_def put_bucket_policy_def
      json_dumps_def Let_def)


theorem restore_round_trip_witness:
  "truthy read_policy \<and>
   backup_policy quiet_world read_policy ''my-bucket'' ''123456789012''
     = (quiet_world\<lparr>files := [backup_path \<mapsto> Encoded read_policy]\<rparr>, Some backup_path) \<and>
   files (world_with write_policy\<lparr>files := [backup_path \<mapsto> Encoded read_policy]\<rparr>) backup_path
     = files (quiet_world\<lparr>files := [backup_path \<mapsto> Encoded read_policy]\<rparr>) backup_path \<and>
   put_fault (world_with write_policy\<lparr>files := [backup_path \<mapsto> Encoded read_policy]\<rparr>)
     ''my-bucket'' (Encoded read_policy) = None \<and>
   policies (world_with write_policy\<lparr>files := [backup_path \<mapsto> Encoded read_policy]\<rparr>)
     ''my-bucket'' = Some (Encoded write_policy) \<and>
   policies (fst (restore_policy
       (world_with write_policy\<lparr>files := [backup_path \<mapsto> Encoded read_policy]\<rparr>)
       ''my-bucket'' backup_path))
     ''my-bucket'' = Some (Encoded read_policy) \<and>
   snd (restore_policy
       (world_with write_policy\<lparr>files := [backup_path \<mapsto> Encoded read_policy]\<rparr>)
       ''my-bucket'' backup_path) = Success None"
  using restore_round_trip[of read_policy quiet_world "''my-bucket''" "''123456789012''"]
  by (simp add: example_defs backup_policy_def os_path_join_def strftime_def pad2_def pad4_def
      digit_def Let_def json_dumps_def restore_policy_def open_read_def put_bucket_policy_def)

section \<open>Removing a statement\<close>

lemma py_eq_JStr: "py_eq v (JStr s) = (v = JStr s)"
  by (cases v) auto

lemma keep_other_sids_dicts:
  "list_all is_dict stmts \<Longrightarrow>
   keep_other_sids stmts sid = Inr (filter (\<lambda>s. \<not> sid_equals s (JStr sid)) stmts)"
proof (induction stmts)
  case Nil
  then show ?case by simp
next
  case (Cons stmt rest)
  then obtain kvs where "stmt = JObj kvs" by (cases stmt) auto
  with Cons show ?case by (simp add: sid_equals_def split: option.splits)
qed

lemma policy_document_dict:
  "policy_document doc stmts \<Longrightarrow>
   \<exists>kvs. doc = JObj kvs \<and> map_of kvs ''Statement'' = Some (JList stmts) \<and> kvs \<noteq> []"
  by (cases doc) (force simp: policy_document_def split: option.splits)+

lemma getitem_setitem:
  "setitem doc k v = Inr final \<Longrightarrow> getitem final k = Inr v"
  by (cases doc) (auto simp: update_conv')

lemma remove_body_document:
  assumes cur: "get_current_policy w bucket_name = Inr doc"
    and doc: "policy_document doc stmts"
  shows "\<exists>final. setitem doc ''Statement'' (JList (filter (\<lambda>s. \<not> sid_equals s (JStr sid)) stmts)) = Inr final \<and>
    remove_body w bucket_name sid =
     (if length (filter (\<lambda>s. \<not> sid_equals s (JStr sid)) stmts) = length stmts
      then (w, Inr (Skipped (SidNotFound sid)))
      else (case (if filter (\<lambda>s. \<not> sid_equals s (JStr sid)) stmts \<noteq> []
                  then put_bucket_policy w bucket_name (json_dumps final)
                  else delete_bucket_policy w bucket_name) of
              (w', Inl e) \<Rightarrow> (w', Inl e)
            | (w', Inr u) \<Rightarrow> (w', Inr (Success None))))"
proof -
  from policy_document_dict[OF doc] obtain kvs where kvs: "doc = JObj kvs"
    "map_of kvs ''Statement'' = Some (JList stmts)" "kvs \<noteq> []" by blast
  from doc have dicts: "list_all is_dict stmts" by (simp add: policy_document_def)
  show ?thesis
    unfolding remove_body_def
    by (simp add: cur kvs keep_other_sids_dicts[OF dicts])
qed

lemma remove_policy_single:
  "remove_policy w [bucket_name] sid =
     (case except_Exception (remove_body w bucket_name sid) of
        (w', Inl e) \<Rightarrow> (w', Inl e)
      | (w', Inr entry) \<Rightarrow> (w', Inr [bucket_name \<mapsto> entry]))"
  by (simp add: remove_policy_def split: prod.splits sum.splits)

lemma raised_is_Exception: "is_Exception (raised err)"
  by (cases err) auto

lemma filter_length_eq_iff: "length (filter P xs) = length xs \<longleftrightarrow> (\<forall>x\<in>set xs. P x)"
proof -
  have "length (filter P xs) = length xs \<longleftrightarrow> length (filter (\<lambda>x. \<not> P x) xs) = 0"
    using sum_length_filter_compl[of P xs] by arith
  also have "\<dots> \<longleftrightarrow> (\<forall>x\<in>set xs. P x)" by (simp add: filter_empty_conv)
  finally show ?thesis .
qed

lemma put_bucket_policy_requests:
  "requests (fst (put_bucket_policy w b c)) = requests w @ [PutBucketPolicy b c]"
  by (simp add: put_bucket_policy_def Let_def split: option.splits)

lemma delete_bucket_policy_requests:
  "requests (fst (delete_bucket_policy w b)) = requests w @ [DeleteBucketPolicy b]"
  by (simp add: delete_bucket_policy_def Let_def split: option.splits)

lemma put_bucket_policy_accepted:
  "put_fault w b c = None \<Longrightarrow>
   put_bucket_policy w b c
     = (w\<lparr>requests := requests w @ [PutBucketPolicy b c], policies := (policies w)(b \<mapsto> c)\<rparr>, Inr ())"
  by (simp add: put_bucket_policy_def Let_def)

lemma delete_bucket_policy_accepted:
  "delete_fault w b = None \<Longrightarrow>
   delete_bucket_policy w b
     = (w\<lparr>requests := requests w @ [DeleteBucketPolicy b], policies := (policies w)(b := None)\<rparr>, Inr ())"
  by (simp add: delete_bucket_policy_def Let_def)

lemma put_bucket_policy_refused:
  "put_fault w b c = Some err \<Longrightarrow>
   put_bucket_policy w b c
     = (w\<lparr>requests := requests w @ [PutBucketPolicy b c]\<rparr>, Inl (raised err))"
  by (simp add: put_bucket_policy_def Let_def)

lemma delete_bucket_policy_refused:
  "delete_fault w b = Some err \<Longrightarrow>
   delete_bucket_policy w b
     = (w\<lparr>requests := requests w @ [DeleteBucketPolicy b]\<rparr>, Inl (raised err))"
  by (simp add: delete_bucket_policy_def Let_def)

lemma remove_policy_document:
  assumes cur: "get_current_policy w bucket_name = Inr doc"
    and doc: "policy_document doc stmts"
    and kept: "kept = filter (\<lambda>s. \<not> sid_equals s (JStr sid)) stmts"
  shows "\<exists>final. setitem doc ''Statement'' (JList kept) = Inr final \<and>
    remove_policy w [bucket_name] sid =
     (if length kept = length stmts
      then (w, Inr [bucket_name \<mapsto> Skipped (SidNotFound sid)])
      else if kept \<noteq> [] then
        (case put_fault w bucket_name (json_dumps final) of
           None \<Rightarrow>
             (w\<lparr>requests := requests w @ [PutBucketPolicy bucket_name (json_dumps final)],
                policies := (policies w)(bucket_name \<mapsto> json_dumps final)\<rparr>,
              Inr [bucket_name \<mapsto> Success None])
         | Some err \<Rightarrow>
             (w\<lparr>requests := requests w @ [PutBucketPolicy bucket_name (json_dumps final)]\<rparr>,
              Inr [bucket_name \<mapsto> Error (raised err)]))
      else
        (case delete_fault w bucket_name of
           None \<Rightarrow>
             (w\<lparr>requests := requests w @ [DeleteBucketPolicy bucket_name],
                policies := (policies w)(bucket_name := None)\<rparr>,
              Inr [bucket_name \<mapsto> Success None])
         | Some err \<Rightarrow>
             (w\<lparr>requests := requests w @ [DeleteBucketPolicy bucket_name]\<rparr>,
              Inr [bucket_name \<mapsto> Error (raised err)])))"
proof -
  from remove_body_document[OF cur doc, of sid] obtain final where
    final: "setitem doc ''Statement'' (JList kept) = Inr final" and
    body: "remove_body w bucket_name sid =
     (if length kept = length stmts
      then (w, Inr (Skipped (SidNotFound sid)))
      else (case (if kept \<noteq> []
                  then put_bucket_policy w bucket_name (json_dumps final)
                  else delete_bucket_policy w bucket_name) of
              (w', Inl e) \<Rightarrow> (w', Inl e)
            | (w', Inr u) \<Rightarrow> (w', Inr (Success None))))"
    unfolding kept by blast
  have "remove_policy w [bucket_name] sid = 
     (if length kept = length stmts
      then (w, Inr [bucket_name \<mapsto> Skipped (SidNotFound sid)])
      else if kept \<noteq> [] then
        (case put_fault w bucket_name (json_dumps final) of
           None \<Rightarrow>
             (w\<lparr>requests := requests w @ [PutBucketPolicy bucket_name (json_dumps final)],
                policies := (policies w)(bucket_name \<mapsto> json_dumps final)\<rparr>,
              Inr [bucket_name \<mapsto> Success None])
         | Some err \<Rightarrow>
             (w\<lparr>requests := requests w @ [PutBucketPolicy bucket_name (json_dumps final)]\<rparr>,
              Inr [bucket_name \<mapsto> Error (raised err)]))
      else
        (case delete_fault w bucket_name of
           None \<Rightarrow>
             (w\<lparr>requests := requests w @ [DeleteBucketPolicy bucket_name],
                policies := (policies w)(bucket_name := None)\<rparr>,
              Inr [bucket_name \<mapsto> Success None])
         | Some err \<Rightarrow>
             (w\<lparr>requests := requests w @ [DeleteBucketPolicy bucket_name]\<rparr>,
              Inr [bucket_name \<mapsto> Error (raised err)])))"
    unfolding remove_policy_single body
    by (simp add: except_Exception_def put_bucket_policy_accepted put_bucket_policy_refused
        delete_bucket_policy_accepted delete_bucket_policy_refused raised_is_Exception
        split: option.splits)
  with final show ?thesis by blast
qed

text \<open>
  Claim C2, as amended. For a bucket whose current policy is a policy document: if some statement
  has the target \<^verbatim>\<open>Sid\<close>, every such statement is filtered out, so the number of
  statements strictly decreases, and the filtered document is uploaded when a statement is left,
  while the policy is deleted when none is left (with the status success when the store accepts
  the request); if no statement has the target \<^verbatim>\<open>Sid\<close>, nothing is sent, the world is
  unchanged and the status is skipped, not found.
\<close>

theorem remove_correctness:
  "get_current_policy w bucket_name = Inr doc \<and> policy_document doc stmts \<longrightarrow>
   (\<exists>kept final w' results.
      kept = filter (\<lambda>s. \<not> sid_equals s (JStr sid)) stmts \<and>
      setitem doc ''Statement'' (JList kept) = Inr final \<and>
      remove_policy w [bucket_name] sid = (w', Inr results) \<and>
      ((\<exists>s\<in>set stmts. sid_equals s (JStr sid)) \<longrightarrow>
          length kept < length stmts \<and>
          (kept \<noteq> [] \<longrightarrow>
             requests w' = requests w @ [PutBucketPolicy bucket_name (json_dumps final)] \<and>
             (put_fault w bucket_name (json_dumps final) = None \<longrightarrow>
                policies w' = (policies w)(bucket_name \<mapsto> json_dumps final) \<and>
                results bucket_name = Some (Success None))) \<and>
          (kept = [] \<longrightarrow>
             requests w' = requests w @ [DeleteBucketPolicy bucket_name] \<and>
             (delete_fault w bucket_name = None \<longrightarrow>
                policies w' = (policies w)(bucket_name := None) \<and>
                results bucket_name = Some (Success None)))) \<and>
      ((\<forall>s\<in>set stmts. \<not> sid_equals s (JStr sid)) \<longrightarrow>
          w' = w \<and> results = [bucket_name \<mapsto> Skipped (SidNotFound sid)]))"
proof (intro impI, elim conjE)
  assume cur: "get_current_policy w bucket_name = Inr doc" and doc: "policy_document doc stmts"
  define kept where "kept = filter (\<lambda>s. \<not> sid_equals s (JStr sid)) stmts"
  from remove_policy_document[OF cur doc kept_def] obtain final where
    final: "setitem doc ''Statement'' (JList kept) = Inr final" and
    run: "remove_policy w [bucket_name] sid =
     (if length kept = length stmts
      then (w, Inr [bucket_name \<mapsto> Skipped (SidNotFound sid)])
      else if kept \<noteq> [] then
        (case put_fault w bucket_name (json_dumps final) of
           None \<Rightarrow>
             (w\<lparr>requests := requests w @ [PutBucketPolicy bucket_name (json_dumps final)],
                policies := (policies w)(bucket_name \<mapsto> json_dumps final)\<rparr>,
              Inr [bucket_name \<mapsto> Success None])
         | Some err \<Rightarrow>
             (w\<lparr>requests := requests w @ [PutBucketPolicy bucket_name (json_dumps final)]\<rparr>,
              Inr [bucket_name \<mapsto> Error (raised err)]))
      else
        (case delete_fault w bucket_name of
           None \<Rightarrow>
             (w\<lparr>requests := requests w @ [DeleteBucketPolicy bucket_name],
                policies := (policies w)(bucket_name := None)\<rparr>,
              Inr [bucket_name \<mapsto> Success None])
         | Some err \<Rightarrow>
             (w\<lparr>requests := requests w @ [DeleteBucketPolicy bucket_name]\<rparr>,
              Inr [bucket_name \<mapsto> Error (raised err)])))"
    by blast
  have len: "length kept = length stmts \<longleftrightarrow> (\<forall>s\<in>set stmts. \<not> sid_equals s (JStr sid))"
    unfolding kept_def by (rule filter_length_eq_iff)
  have le: "length kept \<le> length stmts" unfolding kept_def by simp
  obtain w' r where wr: "remove_policy w [bucket_name] sid = (w', r)" by (cases "remove_policy w [bucket_name] sid")
  show "\<exists>kept final w' results.
      kept = filter (\<lambda>s. \<not> sid_equals s (JStr sid)) stmts \<and>
      setitem doc ''Statement'' (JList kept) = Inr final \<and>
      remove_policy w [bucket_name] sid = (w', Inr results) \<and>
      ((\<exists>s\<in>set stmts. sid_equals s (JStr sid)) \<longrightarrow>
          length kept < length stmts \<and>
          (kept \<noteq> [] \<longrightarrow>
             requests w' = requests w @ [PutBucketPolicy bucket_name (json_dumps final)] \<and>
             (put_fault w bucket_name (json_dumps final) = None \<longrightarrow>
                policies w' = (policies w)(bucket_name \<mapsto> json_dumps final) \<and>
                results bucket_name = Some (Success None))) \<and>
          (kept = [] \<longrightarrow>
             requests w' = requests w @ [DeleteBucketPolicy bucket_name] \<and>
             (delete_fault w bucket_name = None \<longrightarrow>
                policies w' = (policies w)(bucket_name := None) \<and>
                results bucket_name = Some (Success None)))) \<and>
      ((\<forall>s\<in>set stmts. \<not> sid_equals s (JStr sid)) \<longrightarrow>
          w' = w \<and> results = [bucket_name \<mapsto> Skipped (SidNotFound sid)])"
  proof (cases "\<forall>s\<in>set stmts. \<not> sid_equals s (JStr sid)")
    case True
    with len run have "remove_policy w [bucket_name] sid = (w, Inr [bucket_name \<mapsto> Skipped (SidNotFound sid)])"
      by simp
    with True final kept_def show ?thesis by blast
  next
    case False
    with len le have lt: "length kept < length stmts" by simp
    show ?thesis
    proof (cases "kept = []")
      case True
      with run lt show ?thesis
        using final kept_def False
        by (cases "delete_fault w bucket_name") (simp_all, blast+)
    next
      case ne: False
      with run lt show ?thesis
        using final kept_def False
        by (cases "put_fault w bucket_name (json_dumps final)") (simp_all, blast+)
    qed
  qed
qed

theorem remove_correctness_witness:
  "get_current_policy (world_with two_policy) ''my-bucket'' = Inr two_policy \<and>
   policy_document two_policy [allow_stmt, other_stmt] \<and>
   sid_equals allow_stmt (JStr ''AllowRead'') \<and>
   requests (fst (remove_policy (world_with two_policy) [''my-bucket''] ''AllowRead''))
     = [PutBucketPolicy ''my-bucket''
          (Encoded (JObj [(''Version'', JStr ''2012-10-17''), (''Statement'', JList [other_stmt])]))] \<and>
   \<not> sid_equals allow_stmt (JStr ''DenyAll'') \<and> \<not> sid_equals other_stmt (JStr ''DenyAll'') \<and>
   remove_policy (world_with two_policy) [''my-bucket''] ''DenyAll''
     = (world_with two_policy, Inr [''my-bucket'' \<mapsto> Skipped (SidNotFound ''DenyAll'')])"
  using remove_correctness[of "world_with two_policy" "''my-bucket''" two_policy "[allow_stmt, other_stmt]" "''AllowRead''"]
    remove_correctness[of "world_with two_policy" "''my-bucket''" two_policy "[allow_stmt, other_stmt]" "''DenyAll''"]
  by (simp add: example_defs remove_defs)

text \<open>With a single statement, which has the target \<^verbatim>\<open>Sid\<close>, the only request is the
  deletion: no filtered document is uploaded.\<close>

theorem remove_correctness_counterexample:
  "get_current_policy (world_with read_policy) ''my-bucket'' = Inr read_policy \<and>
   policy_document read_policy [JObj [
        (''Sid'', JStr ''AllowRead''),
        (''Effect'', JStr ''Allow''),
        (''Action'', JStr ''s3:GetObject''),
        (''Resource'', JStr ''arn:aws:s3:::my-bucket/*'')]] \<and>
   requests (fst (remove_policy (world_with read_policy) [''my-bucket''] ''AllowRead''))
     = [DeleteBucketPolicy ''my-bucket''] \<and>
   policies (fst (remove_policy (world_with read_policy) [''my-bucket''] ''AllowRead'')) ''my-bucket''
     = None"
  by (simp add: example_defs remove_defs)

lemma remove_body_puts_nonempty:
  assumes "remove_body w bucket_name sid = (w', r)"
  shows "\<exists>new. requests w' = requests w @ new \<and>
           (\<forall>b c. PutBucketPolicy b c \<in> set new \<longrightarrow>
              (\<exists>final kept. c = json_dumps final \<and>
                 getitem final ''Statement'' = Inr (JList kept) \<and> kept \<noteq> []))"
proof (cases "requests w' = requests w")
  case True
  then show ?thesis by simp
next
  case False
  with assms show ?thesis
    by (auto simp: remove_body_def put_bucket_policy_def delete_bucket_policy_def Let_def
        split: sum.splits if_splits option.splits prod.splits)
      (blast dest: getitem_setitem)+
qed

text \<open>
  Claim C4. For a bucket whose current policy is a policy document: when every statement has the
  target \<^verbatim>\<open>Sid\<close>, the one request sent is the deletion of the bucket policy, and once the
  store has done it the bucket has no policy; when some statements have it and some do not, the one
  request sent is the upload of the document with the statements that are left. And whatever the
  current policy is, no upload sent by a removal carries an empty statement list.
\<close>

theorem full_removal_deletes:
  "(get_current_policy w bucket_name = Inr doc \<and> policy_document doc stmts \<longrightarrow>
     (\<exists>w' results.
        remove_policy w [bucket_name] sid = (w', Inr results) \<and>
        ((\<forall>s\<in>set stmts. sid_equals s (JStr sid)) \<longrightarrow>
           requests w' = requests w @ [DeleteBucketPolicy bucket_name] \<and>
           (delete_fault w bucket_name = None \<longrightarrow>
              policies w' bucket_name = None \<and> results bucket_name = Some (Success None))) \<and>
        ((\<exists>s\<in>set stmts. sid_equals s (JStr sid)) \<and> (\<exists>s\<in>set stmts. \<not> sid_equals s (JStr sid)) \<longrightarrow>
           (\<exists>final.
              getitem final ''Statement''
                = Inr (JList (filter (\<lambda>s. \<not> sid_equals s (JStr sid)) stmts)) \<and>
              setitem doc ''Statement'' (JList (filter (\<lambda>s. \<not> sid_equals s (JStr sid)) stmts))
                = Inr final \<and>
              requests w' = requests w @ [PutBucketPolicy bucket_name (json_dumps final)] \<and>
              (put_fault w bucket_name (json_dumps final) = None \<longrightarrow>
                 policies w' bucket_name = Some (json_dumps final) \<and>
                 results bucket_name = Some (Success None)))))) \<and>
   (\<forall>w' r. remove_body w bucket_name sid = (w', r) \<longrightarrow>
      (\<exists>new. requests w' = requests w @ new \<and>
         (\<forall>b c. PutBucketPolicy b c \<in> set new \<longrightarrow>
            (\<exists>final kept. c = json_dumps final \<and>
               getitem final ''Statement'' = Inr (JList kept) \<and> kept \<noteq> []))))"
proof (intro conjI impI allI)
  assume "get_current_policy w bucket_name = Inr doc \<and> policy_document doc stmts"
  then have cur: "get_current_policy w bucket_name = Inr doc" and doc: "policy_document doc stmts"
    by simp_all
  define kept where "kept = filter (\<lambda>s. \<not> sid_equals s (JStr sid)) stmts"
  from doc have ne: "stmts \<noteq> []" by (simp add: policy_document_def)
  from remove_policy_document[OF cur doc kept_def] obtain final where
    final: "setitem doc ''Statement'' (JList kept) = Inr final" and
    run: "remove_policy w [bucket_name] sid =
     (if length kept = length stmts
      then (w, Inr [bucket_name \<mapsto> Skipped (SidNotFound sid)])
      else if kept \<noteq> [] then
        (case put_fault w bucket_name (json_dumps final) of
           None \<Rightarrow>
             (w\<lparr>requests := requests w @ [PutBucketPolicy bucket_name (json_dumps final)],
                policies := (policies w)(bucket_name \<mapsto> json_dumps final)\<rparr>,
              Inr [bucket_name \<mapsto> Success None])
         | Some err \<Rightarrow>
             (w\<lparr>requests := requests w @ [PutBucketPolicy bucket_name (json_dumps final)]\<rparr>,
              Inr [bucket_name \<mapsto> Error (raised err)]))
      else
        (case delete_fault w bucket_name of
           None \<Rightarrow>
             (w\<lparr>requests := requests w @ [DeleteBucketPolicy bucket_name],
                policies := (policies w)(bucket_name := None)\<rparr>,
              Inr [bucket_name \<mapsto> Success None])
         | Some err \<Rightarrow>
             (w\<lparr>requests := requests w @ [DeleteBucketPolicy bucket_name]\<rparr>,
              Inr [bucket_name \<mapsto> Error (raised err)])))"
    by blast
  have len: "length kept = length stmts \<longleftrightarrow> (\<forall>s\<in>set stmts. \<not> sid_equals s (JStr sid))"
    unfolding kept_def by (rule filter_length_eq_iff)
  have empty: "kept = [] \<longleftrightarrow> (\<forall>s\<in>set stmts. sid_equals s (JStr sid))"
    unfolding kept_def by (simp add: filter_empty_conv)
  have fin: "getitem final ''Statement'' = Inr (JList kept)"
    using final by (rule getitem_setitem)
  show "\<exists>w' results.
        remove_policy w [bucket_name] sid = (w', Inr results) \<and>
        ((\<forall>s\<in>set stmts. sid_equals s (JStr sid)) \<longrightarrow>
           requests w' = requests w @ [DeleteBucketPolicy bucket_name] \<and>
           (delete_fault w bucket_name = None \<longrightarrow>
              policies w' bucket_name = None \<and> results bucket_name = Some (Success None))) \<and>
        ((\<exists>s\<in>set stmts. sid_equals s (JStr sid)) \<and> (\<exists>s\<in>set stmts. \<not> sid_equals s (JStr sid)) \<longrightarrow>
           (\<exists>final.
              getitem final ''Statement''
                = Inr (JList (filter (\<lambda>s. \<not> sid_equals s (JStr sid)) stmts)) \<and>
              setitem doc ''Statement'' (JList (filter (\<lambda>s. \<not> sid_equals s (JStr sid)) stmts))
                = Inr final \<and>
              requests w' = requests w @ [PutBucketPolicy bucket_name (json_dumps final)] \<and>
              (put_fault w bucket_name (json_dumps final) = None \<longrightarrow>
                 policies w' bucket_name = Some (json_dumps final) \<and>
                 results bucket_name = Some (Success None))))"
  proof (cases "\<forall>s\<in>set stmts. sid_equals s (JStr sid)")
    case True
    with ne have "\<not> (\<forall>s\<in>set stmts. \<not> sid_equals s (JStr sid))" by (cases stmts) auto
    with len have "length kept \<noteq> length stmts" by simp
    moreover from True empty have "kept = []" by simp
    ultimately show ?thesis using run True
      by (cases "delete_fault w bucket_name") auto
  next
    case False
    with empty have kne: "kept \<noteq> []" by simp
    show ?thesis
    proof (cases "\<exists>s\<in>set stmts. sid_equals s (JStr sid)")
      case some: True
      with len have "length kept \<noteq> length stmts" by blast
      with kne run have "remove_policy w [bucket_name] sid =
        (case put_fault w bucket_name (json_dumps final) of
           None \<Rightarrow>
             (w\<lparr>requests := requests w @ [PutBucketPolicy bucket_name (json_dumps final)],
                policies := (policies w)(bucket_name \<mapsto> json_dumps final)\<rparr>,
              Inr [bucket_name \<mapsto> Success None])
         | Some err \<Rightarrow>
             (w\<lparr>requests := requests w @ [PutBucketPolicy bucket_name (json_dumps final)]\<rparr>,
              Inr [bucket_name \<mapsto> Error (raised err)]))" by simp
      then show ?thesis using False fin final unfolding kept_def
        by (cases "put_fault w bucket_name (json_dumps final)") auto
    next
      case none: False
      with len run have "remove_policy w [bucket_name] sid
        = (w, Inr [bucket_name \<mapsto> Skipped (SidNotFound sid)])" by simp
      with False none show ?thesis by simp
    qed
  qed
next
  fix w' r
  assume "remove_body w bucket_name sid = (w', r)"
  then show "\<exists>new. requests w' = requests w @ new \<and>
         (\<forall>b c. PutBucketPolicy b c \<in> set new \<longrightarrow>
            (\<exists>final kept. c = json_dumps final \<and>
               getitem final ''Statement'' = Inr (JList kept) \<and> kept \<noteq> []))"
    by (rule remove_body_puts_nonempty)
qed

theorem full_removal_deletes_witness:
  "get_current_policy (world_with duplicate_policy) ''my-bucket'' = Inr duplicate_policy \<and>
   policy_document duplicate_policy [allow_stmt, deny_stmt] \<and>
   sid_equals allow_stmt (JStr ''AllowRead'') \<and> sid_equals deny_stmt (JStr ''AllowRead'') \<and>
   delete_fault (world_with duplicate_policy) ''my-bucket'' = None \<and>
   requests (fst (remove_policy (world_with duplicate_policy) [''my-bucket''] ''AllowRead''))
     = [DeleteBucketPolicy ''my-bucket''] \<and>
   policies (fst (remove_policy (world_with duplicate_policy) [''my-bucket''] ''AllowRead'')) ''my-bucket''
     = None \<and>
   get_current_policy (world_with two_policy) ''my-bucket'' = Inr two_policy \<and>
   policy_document two_policy [allow_stmt, other_stmt] \<and>
   \<not> sid_equals other_stmt (JStr ''AllowRead'') \<and>
   put_fault (world_with two_policy) ''my-bucket''
     (Encoded (JObj [(''Version'', JStr ''2012-10-17''), (''Statement'', JList [other_stmt])])) = None \<and>
   policies (fst (remove_policy (world_with two_policy) [''my-bucket''] ''AllowRead'')) ''my-bucket''
     = Some (Encoded (JObj [(''Version'', JStr ''2012-10-17''), (''Statement'', JList [other_stmt])]))"
  using full_removal_deletes[of "world_with duplicate_policy" "''my-bucket''" duplicate_policy
      "[allow_stmt, deny_stmt]" "''AllowRead''"]
    full_removal_deletes[of "world_with two_policy" "''my-bucket''" two_policy
      "[allow_stmt, other_stmt]" "''AllowRead''"]
  by (simp add: example_defs remove_defs)

section \<open>Looking for the template's \<^verbatim>\<open>Sid\<close> among the statements\<close>

lemma any_sid_equal_dicts:
  "template_sid new = Inr new_sid \<Longrightarrow> list_all is_dict stmts \<Longrightarrow>
   any_sid_equal stmts new = Inr (\<exists>s\<in>set stmts. sid_equals s new_sid)"
proof (induction stmts)
  case Nil
  then show ?case by simp
next
  case (Cons stmt rest)
  then obtain kvs where "stmt = JObj kvs" by (cases stmt) auto
  with Cons show ?case by (auto simp: sid_equals_def split: option.splits)
qed

lemma any_sid_equal_first_match:
  assumes "template_sid new = Inr new_sid" "list_all is_dict pre"
    "\<forall>s\<in>set pre. \<not> sid_equals s new_sid" "is_dict stmt" "sid_equals stmt new_sid"
  shows "any_sid_equal (pre @ stmt # post) new = Inr True"
  using assms(2,3)
proof (induction pre)
  case Nil
  from assms(4) obtain kvs where "stmt = JObj kvs" by (cases stmt) auto
  with assms(1,5) show ?case by (auto simp: sid_equals_def split: option.splits)
next
  case (Cons s pre)
  then obtain kvs where "s = JObj kvs" by (cases s) auto
  with Cons assms(1) show ?case by (auto simp: sid_equals_def split: option.splits)
qed

text \<open>
  Claim C5, as amended. Statements that share a \<^verbatim>\<open>Sid\<close> are not rejected: on any list of
  statement objects the search of \<^verbatim>\<open>apply_policy\<close> and the filter of
  \<^verbatim>\<open>remove_policy\<close> return without an exception. The skip decision of apply is taken at
  the first statement with the template's \<^verbatim>\<open>Sid\<close>: whatever follows it is not examined.
  The removal does not stop at the first match: it filters out every statement with the target
  \<^verbatim>\<open>Sid\<close>.
\<close>

theorem duplicate_sids:
  "(template_sid new = Inr new_sid \<and> getitem current ''Statement'' = Inr (JList (pre @ stmt # post)) \<and>
    list_all is_dict pre \<and> (\<forall>s\<in>set pre. \<not> sid_equals s new_sid) \<and>
    is_dict stmt \<and> sid_equals stmt new_sid \<longrightarrow>
      policy_exists current new = Inr True) \<and>
   (template_sid new = Inr new_sid \<and> getitem current ''Statement'' = Inr (JList stmts) \<and>
    list_all is_dict stmts \<longrightarrow>
      policy_exists current new = Inr (\<exists>s\<in>set stmts. sid_equals s new_sid)) \<and>
   (list_all is_dict stmts \<longrightarrow>
      keep_other_sids stmts sid = Inr (filter (\<lambda>s. \<not> sid_equals s (JStr sid)) stmts))"
  by (auto simp: policy_exists_def any_sid_equal_first_match any_sid_equal_dicts
      keep_other_sids_dicts)

theorem duplicate_sids_witness:
  "template_sid read_policy = Inr (JStr ''AllowRead'') \<and>
   getitem (JObj [(''Statement'', JList [other_stmt, allow_stmt, deny_stmt, JStr ''junk''])]) ''Statement''
     = Inr (JList ([other_stmt] @ allow_stmt # [deny_stmt, JStr ''junk''])) \<and>
   list_all is_dict [other_stmt] \<and> \<not> sid_equals other_stmt (JStr ''AllowRead'') \<and>
   is_dict allow_stmt \<and> sid_equals allow_stmt (JStr ''AllowRead'') \<and>
   policy_exists (JObj [(''Statement'', JList [other_stmt, allow_stmt, deny_stmt, JStr ''junk''])])
     read_policy = Inr True \<and>
   getitem duplicate_policy ''Statement'' = Inr (JList [allow_stmt, deny_stmt]) \<and>
   list_all is_dict [allow_stmt, deny_stmt] \<and>
   policy_exists duplicate_policy read_policy = Inr True \<and>
   keep_other_sids [allow_stmt, deny_stmt, other_stmt] ''AllowRead'' = Inr [other_stmt]"
  using duplicate_sids[of read_policy "JStr ''AllowRead''"
      "JObj [(''Statement'', JList [other_stmt, allow_stmt, deny_stmt, JStr ''junk''])]"
      "[other_stmt]" allow_stmt "[deny_stmt, JStr ''junk'']" "[allow_stmt, deny_stmt, other_stmt]" "''AllowRead''"]
    duplicate_sids[of read_policy "JStr ''AllowRead''" duplicate_policy
      "[]" allow_stmt "[deny_stmt]" "[allow_stmt, deny_stmt]" "''AllowRead''"]
  by (simp add: example_defs sid_equals_def template_sid_def policy_exists_def)

text \<open>With two statements of the same \<^verbatim>\<open>Sid\<close> the filter removes both and the policy is
  deleted; a removal that used only the first match would have left the second statement.\<close>

theorem duplicate_sids_counterexample:
  "keep_other_sids [allow_stmt, deny_stmt] ''AllowRead'' = Inr [] \<and>
   remove_first_match [allow_stmt, deny_stmt] ''AllowRead'' = [deny_stmt] \<and>
   requests (fst (remove_policy (world_with duplicate_policy) [''my-bucket''] ''AllowRead''))
     = [DeleteBucketPolicy ''my-bucket'']"
  by (simp add: example_defs remove_defs)

section \<open>Applying a template\<close>

subsection \<open>What a backup leaves alone\<close>

lemma backup_path_start:
  "take 8 (os_path_join (''policy_backups_'' @ account_id) (''bucket_policy_backup_'' @ rest))
     = ''policy_b''"
  by (simp add: os_path_join_def)

lemma template_path_start: "take 8 (template_path template_name) \<noteq> ''policy_b''"
proof (cases "prefix ''/'' (template_name @ ''.json'')")
  case True
  then obtain r where "template_name @ ''.json'' = CHR ''/'' # r" by (auto simp: prefix_def)
  then show ?thesis by (simp add: template_path_def os_path_join_def)
next
  case False
  then show ?thesis by (simp add: template_path_def os_path_join_def)
qed

lemma load_policy_template_file:
  "load_policy_template w template_name bucket_name =
     (case files w (template_path template_name) of
        None \<Rightarrow> Inl (SystemExit 1)
      | Some Undecodable \<Rightarrow> Inl (SystemExit 1)
      | Some (Encoded template) \<Rightarrow> Inr (replace_placeholders bucket_name template))"
  by (simp add: load_policy_template_def open_read_def template_path_def
      split: option.splits content.splits)

lemma backup_policy_frame:
  assumes "backup_policy w policy bucket_name account_id = (w', f)"
  shows "policies w' = policies w" "get_fault w' = get_fault w" "put_fault w' = put_fault w"
    "delete_fault w' = delete_fault w" "requests w' = requests w" "now w' = now w"
    "files w' (template_path template_name) = files w (template_path template_name)"
proof -
  define path where "path = os_path_join (''policy_backups_'' @ account_id)
    (''bucket_policy_backup_'' @ (bucket_name @ ''_'' @ strftime (now w) @ ''.json''))"
  have ne: "path \<noteq> template_path template_name"
    using backup_path_start template_path_start unfolding path_def by metis
  have w': "w' = w \<or> w' = w\<lparr>files := (files w)(path \<mapsto> json_dumps policy)\<rparr>"
    using assms unfolding path_def by (auto simp: backup_policy_def Let_def split: if_splits)
  then show "policies w' = policies w" "get_fault w' = get_fault w"
    "put_fault w' = put_fault w" "delete_fault w' = delete_fault w" "requests w' = requests w"
    "now w' = now w"
    by auto
  from w' ne show "files w' (template_path template_name) = files w (template_path template_name)"
    by auto
qed

lemma get_current_policy_cong:
  "policies w' bucket_name = policies w bucket_name \<Longrightarrow>
   get_fault w' bucket_name = get_fault w bucket_name \<Longrightarrow>
   get_current_policy w' bucket_name = get_current_policy w bucket_name"
  by (auto simp: get_current_policy_def get_bucket_policy_def split: option.splits)

lemma load_policy_template_cong:
  "files w' (template_path template_name) = files w (template_path template_name) \<Longrightarrow>
   load_policy_template w' template_name bucket_name
     = load_policy_template w template_name bucket_name"
  by (simp add: load_policy_template_file)

text \<open>The world after the optional backup at the start of the body.\<close>

lemma backup_step_frame:
  assumes "(if backup \<and> truthy current_policy
            then backup_policy w current_policy bucket_name account_id else (w, None)) = (w1, f)"
  shows "policies w1 = policies w" "get_fault w1 = get_fault w" "put_fault w1 = put_fault w"
    "delete_fault w1 = delete_fault w" "requests w1 = requests w" "now w1 = now w"
    "files w1 (template_path template_name) = files w (template_path template_name)"
proof -
  have "w1 = w \<or> backup_policy w current_policy bucket_name account_id = (w1, f)"
    using assms by (auto split: if_splits)
  then show "policies w1 = policies w" "get_fault w1 = get_fault w" "put_fault w1 = put_fault w"
    "delete_fault w1 = delete_fault w" "requests w1 = requests w" "now w1 = now w"
    "files w1 (template_path template_name) = files w (template_path template_name)"
    by (auto dest: backup_policy_frame)
qed

subsection \<open>The body of apply, step by step\<close>

lemma apply_body_get_failed:
  "get_current_policy w bucket_name = Inl e \<Longrightarrow>
   apply_body w bucket_name template_name backup account_id = (w, Inl e)"
  by (simp add: apply_body_def)

lemma apply_body_after_get:
  assumes get: "get_current_policy w bucket_name = Inr current_policy"
    and step: "(if backup \<and> truthy current_policy
            then backup_policy w current_policy bucket_name account_id else (w, None)) = (w1, backup_file)"
  shows "apply_body w bucket_name template_name backup account_id =
     (case load_policy_template w template_name bucket_name of
        Inl e \<Rightarrow> (w1, Inl e)
      | Inr new_policy_statement \<Rightarrow>
          (case (if truthy current_policy then
                   (case policy_exists current_policy new_policy_statement of
                      Inl e \<Rightarrow> Inl e
                    | Inr True \<Rightarrow>
                        (case template_sid new_policy_statement of
                           Inl e \<Rightarrow> Inl e
                         | Inr new_sid \<Rightarrow> Inr (Inl (Skipped (SidExists new_sid))))
                    | Inr False \<Rightarrow>
                        (case extend_statement current_policy new_policy_statement of
                           Inl e \<Rightarrow> Inl e
                         | Inr final_policy \<Rightarrow> Inr (Inr final_policy)))
                 else Inr (Inr new_policy_statement)) of
             Inl e \<Rightarrow> (w1, Inl e)
           | Inr (Inl skipped) \<Rightarrow> (w1, Inr skipped)
           | Inr (Inr final_policy) \<Rightarrow>
               (case put_bucket_policy w1 bucket_name (json_dumps final_policy) of
                  (w2, Inl e) \<Rightarrow> (w2, Inl e)
                | (w2, Inr u) \<Rightarrow> (w2, Inr (Success backup_file)))))"
proof -
  have "load_policy_template w1 template_name bucket_name
      = load_policy_template w template_name bucket_name"
    using backup_step_frame(7)[OF step] by (rule load_policy_template_cong)
  then show ?thesis
    unfolding apply_body_def by (simp add: get step)
qed

lemma apply_policy_single:
  "apply_policy w [bucket_name] template_name backup account_id =
     (case except_Exception (apply_body w bucket_name template_name backup account_id) of
        (w', Inl e) \<Rightarrow> (w', Inl e)
      | (w', Inr entry) \<Rightarrow> (w', Inr [bucket_name \<mapsto> entry]))"
  by (simp add: apply_policy_def split: prod.splits sum.splits)

lemma policy_exists_document:
  "policy_document current stmts \<Longrightarrow> template_sid new = Inr new_sid \<Longrightarrow>
   policy_exists current new = Inr (\<exists>s\<in>set stmts. sid_equals s new_sid)"
  by (simp add: policy_exists_def policy_document_def any_sid_equal_dicts)

lemma policy_document_truthy: "policy_document doc stmts \<Longrightarrow> truthy doc"
  using policy_document_dict[of doc stmts] by auto

lemma apply_policy_skips:
  assumes get: "get_current_policy w bucket_name = Inr current_policy"
    and truthy: "truthy current_policy"
    and load: "load_policy_template w template_name bucket_name = Inr new_policy_statement"
    and sid: "template_sid new_policy_statement = Inr new_sid"
    and match: "policy_exists current_policy new_policy_statement = Inr True"
  shows "\<exists>w'. apply_policy w [bucket_name] template_name backup account_id
            = (w', Inr [bucket_name \<mapsto> Skipped (SidExists new_sid)]) \<and>
         policies w' = policies w \<and> requests w' = requests w"
proof -
  obtain w1 backup_file where step: "(if backup \<and> truthy current_policy
      then backup_policy w current_policy bucket_name account_id else (w, None)) = (w1, backup_file)"
    by (cases "if backup \<and> truthy current_policy
      then backup_policy w current_policy bucket_name account_id else (w, None)")
  have "apply_body w bucket_name template_name backup account_id
      = (w1, Inr (Skipped (SidExists new_sid)))"
    unfolding apply_body_after_get[OF get step]
    by (simp add: load sid truthy match)
  then have "apply_policy w [bucket_name] template_name backup account_id
      = (w1, Inr [bucket_name \<mapsto> Skipped (SidExists new_sid)])"
    by (simp add: apply_policy_single except_Exception_def)
  with backup_step_frame(1,5)[OF step] show ?thesis by blast
qed

text \<open>
  Claim C9. When the current policy of the bucket is a policy document with a statement whose
  \<^verbatim>\<open>Sid\<close> equals that of the template's statement, apply sends no put and no delete
  request for the bucket, the policies of the store after the operation are those before it, and
  the entry of the bucket is skipped.
\<close>

theorem apply_skip_does_not_mutate:
  "get_current_policy w bucket_name = Inr current_policy \<and>
   policy_document current_policy stmts \<and>
   load_policy_template w template_name bucket_name = Inr new_policy_statement \<and>
   template_sid new_policy_statement = Inr new_sid \<and>
   (\<exists>s\<in>set stmts. sid_equals s new_sid) \<longrightarrow>
   (\<exists>w'. apply_policy w [bucket_name] template_name backup account_id
            = (w', Inr [bucket_name \<mapsto> Skipped (SidExists new_sid)]) \<and>
         policies w' = policies w \<and> requests w' = requests w)"
proof (intro impI, elim conjE)
  assume get: "get_current_policy w bucket_name = Inr current_policy"
    and doc: "policy_document current_policy stmts"
    and load: "load_policy_template w template_name bucket_name = Inr new_policy_statement"
    and sid: "template_sid new_policy_statement = Inr new_sid"
    and match: "\<exists>s\<in>set stmts. sid_equals s new_sid"
  have "policy_exists current_policy new_policy_statement = Inr True"
    using policy_exists_document[OF doc sid] match by simp
  from apply_policy_skips[OF get policy_document_truthy[OF doc] load sid this]
  show "\<exists>w'. apply_policy w [bucket_name] template_name backup account_id
            = (w', Inr [bucket_name \<mapsto> Skipped (SidExists new_sid)]) \<and>
         policies w' = policies w \<and> requests w' = requests w" .
qed

theorem apply_skip_does_not_mutate_witness:
  "get_current_policy (with_templates (world_with two_policy)) ''my-bucket'' = Inr two_policy \<and>
   policy_document two_policy [allow_stmt, other_stmt] \<and>
   load_policy_template (with_templates (world_with two_policy)) ''read'' ''my-bucket'' = Inr read_policy \<and>
   template_sid read_policy = Inr (JStr ''AllowRead'') \<and>
   sid_equals allow_stmt (JStr ''AllowRead'') \<and>
   snd (apply_policy (with_templates (world_with two_policy)) [''my-bucket''] ''read'' True ''123456789012'')
     = Inr [''my-bucket'' \<mapsto> Skipped (SidExists (JStr ''AllowRead''))] \<and>
   policies (fst (apply_policy (with_templates (world_with two_policy)) [''my-bucket''] ''read'' True ''123456789012''))
     = policies (with_templates (world_with two_policy)) \<and>
   requests (fst (apply_policy (with_templates (world_with two_policy)) [''my-bucket''] ''read'' True ''123456789012''))
     = []"
  using apply_skip_does_not_mutate[of "with_templates (world_with two_policy)" "''my-bucket''" two_policy
      "[allow_stmt, other_stmt]" "''read''" read_policy "JStr ''AllowRead''" True "''123456789012''"]
  by (simp add: example_defs apply_defs policy_document_def sid_equals_def)

lemma getitem_replace_placeholders:
  "getitem doc k = Inr v \<Longrightarrow>
   getitem (replace_placeholders b doc) k = Inr (replace_placeholders b v)"
  by (cases doc) (auto simp: map_of_map_values split: option.splits)

lemma getitem_replace_placeholders_missing:
  "getitem (JObj kvs) k = Inl e \<Longrightarrow> getitem (replace_placeholders b (JObj kvs)) k = Inl e"
  by (auto simp: map_of_map_values split: option.splits)

lemma any_sid_equal_no_template_sid:
  "is_dict stmt \<Longrightarrow> template_sid new = Inl e \<Longrightarrow> any_sid_equal (stmt # rest) new = Inl e"
  by (cases stmt) (auto split: option.splits)

lemma get_current_policy_absent:
  "policies w bucket_name = None \<Longrightarrow> get_fault w bucket_name = None \<Longrightarrow>
   get_current_policy w bucket_name = Inr JNull"
  by (simp add: get_current_policy_def get_bucket_policy_def)

lemma sidless_template_loaded:
  assumes "files w (template_path template_name) = Some (Encoded template)"
    and "getitem template ''Statement'' = Inr (JList [JObj stmt])"
    and "map_of stmt ''Sid'' = None"
  shows "load_policy_template w template_name bucket_name
           = Inr (replace_placeholders bucket_name template)"
    and "template_sid (replace_placeholders bucket_name template) = Inl (KeyError (JStr ''Sid''))"
proof -
  show "load_policy_template w template_name bucket_name
           = Inr (replace_placeholders bucket_name template)"
    by (simp add: load_policy_template_file assms(1))
  have "getitem (replace_placeholders bucket_name template) ''Statement''
      = Inr (replace_placeholders bucket_name (JList [JObj stmt]))"
    using assms(2) by (rule getitem_replace_placeholders)
  then show "template_sid (replace_placeholders bucket_name template) = Inl (KeyError (JStr ''Sid''))"
    using assms(3) by (simp add: template_sid_def map_of_map_values)
qed

text \<open>
  Claim C10. Let the template file hold exactly one statement, without the key \<^verbatim>\<open>Sid\<close>.
  Applied to a bucket whose current policy is a policy document (so with at least one statement,
  as the store holds them), the entry is the error of the failed \<^verbatim>\<open>Sid\<close> lookup, nothing
  is sent and the stored policies are unchanged. Applied to a bucket without a policy, on a store
  that accepts the upload, the loaded template is uploaded as it is and the entry is success.
\<close>

theorem sidless_template_apply:
  "files w (template_path template_name) = Some (Encoded template) \<and>
   getitem template ''Statement'' = Inr (JList [JObj stmt]) \<and> map_of stmt ''Sid'' = None \<longrightarrow>
   (\<forall>current stmts.
      get_current_policy w bucket_name = Inr current \<and> policy_document current stmts \<longrightarrow>
      (\<exists>w'. apply_policy w [bucket_name] template_name backup account_id
               = (w', Inr [bucket_name \<mapsto> Error (KeyError (JStr ''Sid''))]) \<and>
            policies w' = policies w \<and> requests w' = requests w)) \<and>
   (policies w bucket_name = None \<and> get_fault w bucket_name = None \<and>
    put_fault w bucket_name (json_dumps (replace_placeholders bucket_name template)) = None \<longrightarrow>
      apply_policy w [bucket_name] template_name backup account_id
        = (w\<lparr>requests := requests w @
                 [PutBucketPolicy bucket_name (json_dumps (replace_placeholders bucket_name template))],
              policies := (policies w)
                 (bucket_name \<mapsto> json_dumps (replace_placeholders bucket_name template))\<rparr>,
           Inr [bucket_name \<mapsto> Success None]))"
proof (intro impI conjI allI)
  fix current stmts
  assume template: "files w (template_path template_name) = Some (Encoded template) \<and>
     getitem template ''Statement'' = Inr (JList [JObj stmt]) \<and> map_of stmt ''Sid'' = None"
    and "get_current_policy w bucket_name = Inr current \<and> policy_document current stmts"
  then have get: "get_current_policy w bucket_name = Inr current"
    and doc: "policy_document current stmts" by simp_all
  define new where "new = replace_placeholders bucket_name template"
  from template have t: "files w (template_path template_name) = Some (Encoded template)"
    "getitem template ''Statement'' = Inr (JList [JObj stmt])" "map_of stmt ''Sid'' = None"
    by simp_all
  have load: "load_policy_template w template_name bucket_name = Inr new"
    and tsid: "template_sid new = Inl (KeyError (JStr ''Sid''))"
    unfolding new_def by (rule sidless_template_loaded[OF t])+
  obtain w1 backup_file where step: "(if backup \<and> truthy current
      then backup_policy w current bucket_name account_id else (w, None)) = (w1, backup_file)"
    by (cases "if backup \<and> truthy current
      then backup_policy w current bucket_name account_id else (w, None)")
  from doc obtain s rest where stmts: "stmts = s # rest" "is_dict s"
    by (cases stmts) (auto simp: policy_document_def)
  have "policy_exists current new = Inl (KeyError (JStr ''Sid''))"
    using doc stmts any_sid_equal_no_template_sid[OF stmts(2) tsid]
    by (simp add: policy_exists_def policy_document_def)
  then have "apply_body w bucket_name template_name backup account_id
      = (w1, Inl (KeyError (JStr ''Sid'')))"
    unfolding apply_body_after_get[OF get step]
    by (simp add: load policy_document_truthy[OF doc])
  then have "apply_policy w [bucket_name] template_name backup account_id
      = (w1, Inr [bucket_name \<mapsto> Error (KeyError (JStr ''Sid''))])"
    by (simp add: apply_policy_single except_Exception_def)
  with backup_step_frame(1,5)[OF step]
  show "\<exists>w'. apply_policy w [bucket_name] template_name backup account_id
             = (w', Inr [bucket_name \<mapsto> Error (KeyError (JStr ''Sid''))]) \<and>
          policies w' = policies w \<and> requests w' = requests w"
    by blast
next
  assume template: "files w (template_path template_name) = Some (Encoded template) \<and>
     getitem template ''Statement'' = Inr (JList [JObj stmt]) \<and> map_of stmt ''Sid'' = None"
    and absent: "policies w bucket_name = None \<and> get_fault w bucket_name = None \<and>
     put_fault w bucket_name (json_dumps (replace_placeholders bucket_name template)) = None"
  define new where "new = replace_placeholders bucket_name template"
  from template have t: "files w (template_path template_name) = Some (Encoded template)"
    "getitem template ''Statement'' = Inr (JList [JObj stmt])" "map_of stmt ''Sid'' = None"
    by simp_all
  have load: "load_policy_template w template_name bucket_name = Inr new"
    unfolding new_def by (rule sidless_template_loaded[OF t])
  from absent have get: "get_current_policy w bucket_name = Inr JNull"
    and put: "put_fault w bucket_name (json_dumps new) = None"
    by (simp_all add: get_current_policy_absent new_def)
  have step: "(if backup \<and> truthy JNull
        then backup_policy w JNull bucket_name account_id else (w, None)) = (w, None)" by simp
  have "apply_body w bucket_name template_name backup account_id
      = (w\<lparr>requests := requests w @ [PutBucketPolicy bucket_name (json_dumps new)],
           policies := (policies w)(bucket_name \<mapsto> json_dumps new)\<rparr>, Inr (Success None))"
    unfolding apply_body_after_get[OF get step]
    by (simp add: load put_bucket_policy_accepted[OF put])
  then show "apply_policy w [bucket_name] template_name backup account_id
        = (w\<lparr>requests := requests w @
                 [PutBucketPolicy bucket_name (json_dumps (replace_placeholders bucket_name template))],
              policies := (policies w)
                 (bucket_name \<mapsto> json_dumps (replace_placeholders bucket_name template))\<rparr>,
           Inr [bucket_name \<mapsto> Success None])"
    by (simp add: apply_policy_single except_Exception_def new_def)
qed

theorem sidless_template_apply_witness:
  "files (with_templates (world_with two_policy)) (template_path ''nosid'') = Some (Encoded sidless_template) \<and>
   getitem sidless_template ''Statement''
     = Inr (JList [JObj [(''Effect'', JStr ''Allow''), (''Resource'', JStr ''arn:aws:s3:::${bucket_name}/*'')]]) \<and>
   map_of [(''Effect'', JStr ''Allow''), (''Resource'', JStr ''arn:aws:s3:::${bucket_name}/*'')] ''Sid'' = None \<and>
   get_current_policy (with_templates (world_with two_policy)) ''my-bucket'' = Inr two_policy \<and>
   policy_document two_policy [allow_stmt, other_stmt] \<and>
   snd (apply_policy (with_templates (world_with two_policy)) [''my-bucket''] ''nosid'' True ''123456789012'')
     = Inr [''my-bucket'' \<mapsto> Error (KeyError (JStr ''Sid''))] \<and>
   policies (fst (apply_policy (with_templates (world_with two_policy)) [''my-bucket''] ''nosid'' True ''123456789012''))
     = policies (with_templates (world_with two_policy)) \<and>
   policies (with_templates quiet_world) ''my-bucket'' = None \<and>
   get_fault (with_templates quiet_world) ''my-bucket'' = None \<and>
   put_fault (with_templates quiet_world) ''my-bucket''
     (json_dumps (replace_placeholders ''my-bucket'' sidless_template)) = None \<and>
   policies (fst (apply_policy (with_templates quiet_world) [''my-bucket''] ''nosid'' True ''123456789012'')) ''my-bucket''
     = Some (Encoded (JObj [(''Statement'', JList [JObj [
          (''Effect'', JStr ''Allow''), (''Resource'', JStr ''arn:aws:s3:::my-bucket/*'')]])])) \<and>
   snd (apply_policy (with_templates quiet_world) [''my-bucket''] ''nosid'' True ''123456789012'')
     = Inr [''my-bucket'' \<mapsto> Success None]"
  using sidless_template_apply[of "with_templates (world_with two_policy)" "''nosid''" sidless_template
      "[(''Effect'', JStr ''Allow''), (''Resource'', JStr ''arn:aws:s3:::${bucket_name}/*'')]"
      "''my-bucket''" True "''123456789012''"]
    sidless_template_apply[of "with_templates quiet_world" "''nosid''" sidless_template
      "[(''Effect'', JStr ''Allow''), (''Resource'', JStr ''arn:aws:s3:::${bucket_name}/*'')]"
      "''my-bucket''" True "''123456789012''"]
  by (simp add: example_defs apply_defs policy_document_def template_path_def)

lemma raised_not_absent: "raised err \<noteq> ClientError ''NoSuchBucketPolicy''"
  by (cases err) auto

lemma get_current_policy_fault:
  "get_fault w bucket_name = Some err \<Longrightarrow> get_current_policy w bucket_name = Inl (raised err)"
  by (cases err) (auto simp: get_current_policy_def get_bucket_policy_def)

lemma get_current_policy_no_fault:
  "get_current_policy w bucket_name = Inr current \<Longrightarrow> get_fault w bucket_name = None"
  using get_current_policy_fault[of w bucket_name] by (cases "get_fault w bucket_name") auto

lemma get_current_policy_stored:
  "policies w bucket_name = Some (Encoded doc) \<Longrightarrow> get_fault w bucket_name = None \<Longrightarrow>
   get_current_policy w bucket_name = Inr doc"
  by (simp add: get_current_policy_def get_bucket_policy_def)

lemma setitem_truthy: "setitem doc k v = Inr final \<Longrightarrow> truthy final"
  by (cases doc) (auto simp: update_Some_unfold dest: arg_cong[of _ _ "\<lambda>al. map_of al k"] simp: update_conv')

lemma any_sid_equal_append:
  "any_sid_equal xs new = Inr False \<Longrightarrow> any_sid_equal (xs @ ys) new = any_sid_equal ys new"
  by (induction xs) (auto split: sum.splits if_splits)

lemma put_bucket_policy_done:
  assumes "put_bucket_policy w b c = (w', Inr u)"
  shows "w' = w\<lparr>requests := requests w @ [PutBucketPolicy b c], policies := (policies w)(b \<mapsto> c)\<rparr>"
  using assms by (auto simp: put_bucket_policy_def Let_def split: option.splits)

text \<open>A template with exactly one statement, which carries a string \<^verbatim>\<open>Sid\<close>, once loaded.\<close>

lemma single_statement_loaded:
  assumes "files w (template_path template_name) = Some (Encoded template)"
    and "getitem template ''Statement'' = Inr (JList [JObj stmt])"
    and "map_of stmt ''Sid'' = Some (JStr sid)"
  shows "load_policy_template w template_name bucket_name
           = Inr (replace_placeholders bucket_name template)"
    and "getitem (replace_placeholders bucket_name template) ''Statement''
           = Inr (JList [replace_placeholders bucket_name (JObj stmt)])"
    and "dict_get (replace_placeholders bucket_name (JObj stmt)) ''Sid''
           = Inr (JStr (str_replace placeholder bucket_name sid))"
    and "template_sid (replace_placeholders bucket_name template)
           = Inr (JStr (str_replace placeholder bucket_name sid))"
proof -
  show "load_policy_template w template_name bucket_name
           = Inr (replace_placeholders bucket_name template)"
    by (simp add: load_policy_template_file assms(1))
  have "getitem (replace_placeholders bucket_name template) ''Statement''
      = Inr (replace_placeholders bucket_name (JList [JObj stmt]))"
    using assms(2) by (rule getitem_replace_placeholders)
  then show g: "getitem (replace_placeholders bucket_name template) ''Statement''
           = Inr (JList [replace_placeholders bucket_name (JObj stmt)])" by simp
  show "dict_get (replace_placeholders bucket_name (JObj stmt)) ''Sid''
           = Inr (JStr (str_replace placeholder bucket_name sid))"
    using assms(3) by (simp add: map_of_map_values)
  show "template_sid (replace_placeholders bucket_name template)
           = Inr (JStr (str_replace placeholder bucket_name sid))"
    using assms(3) by (simp add: template_sid_def g map_of_map_values)
qed

lemma statement_count_cong:
  "policies w' = policies w \<Longrightarrow> statement_count w' bucket = statement_count w bucket"
  by (simp add: statement_count_def)

lemma apply_policy_single_entry:
  assumes "apply_policy w [bucket_name] template_name backup account_id = (w1, Inr results)"
    and "\<forall>e. results bucket_name \<noteq> Some (Error e)"
  shows "\<exists>entry. apply_body w bucket_name template_name backup account_id = (w1, Inr entry)"
proof (cases "apply_body w bucket_name template_name backup account_id")
  case (Pair w' r)
  show ?thesis
  proof (cases r)
    case (Inl e)
    with Pair assms show ?thesis
      by (cases "is_Exception e") (auto simp: apply_policy_single except_Exception_def)
  next
    case (Inr entry)
    with Pair assms show ?thesis
      by (auto simp: apply_policy_single except_Exception_def)
  qed
qed

lemma put_result_cases:
  assumes "(case put_bucket_policy wb b c of (w2, Inl e) \<Rightarrow> (w2, Inl e)
            | (w2, Inr u) \<Rightarrow> (w2, Inr (Success f))) = (w1, Inr entry)"
  shows "put_bucket_policy wb b c = (w1, Inr ())"
proof (cases "put_bucket_policy wb b c")
  case (Pair w2 r)
  with assms show ?thesis by (cases r) auto
qed

lemma apply_body_entry_cases:
  assumes body: "apply_body w bucket_name template_name backup account_id = (w1, Inr entry)"
    and get: "get_current_policy w bucket_name = Inr current"
    and step: "(if backup \<and> truthy current
      then backup_policy w current bucket_name account_id else (w, None)) = (wb, backup_file)"
    and load: "load_policy_template w template_name bucket_name = Inr new"
  shows "(truthy current \<and> policy_exists current new = Inr True \<and> w1 = wb) \<or>
    (truthy current \<and> policy_exists current new = Inr False \<and>
      (\<exists>final. extend_statement current new = Inr final \<and>
         put_bucket_policy wb bucket_name (json_dumps final) = (w1, Inr ()))) \<or>
    (\<not> truthy current \<and> put_bucket_policy wb bucket_name (json_dumps new) = (w1, Inr ()))"
proof (cases "truthy current")
  case False
  with body have "(case put_bucket_policy wb bucket_name (json_dumps new) of
       (w2, Inl e) \<Rightarrow> (w2, Inl e)
     | (w2, Inr u) \<Rightarrow> (w2, Inr (Success backup_file))) = (w1, Inr entry)"
    unfolding apply_body_after_get[OF get step] by (simp add: load)
  from put_result_cases[OF this] False show ?thesis by simp
next
  case True
  show ?thesis
  proof (cases "policy_exists current new")
    case (Inl e)
    with body True show ?thesis
      unfolding apply_body_after_get[OF get step] by (simp add: load)
  next
    case (Inr found)
    show ?thesis
    proof (cases found)
      case yes: True
      with body True Inr have "w1 = wb"
        unfolding apply_body_after_get[OF get step]
        by (cases "template_sid new") (simp_all add: load)
      with True Inr yes show ?thesis by simp
    next
      case no: False
      show ?thesis
      proof (cases "extend_statement current new")
        case (Inl e)
        with body True Inr no show ?thesis
          unfolding apply_body_after_get[OF get step] by (simp add: load)
      next
        case ext: (Inr final)
        with body True Inr no have "(case put_bucket_policy wb bucket_name (json_dumps final) of
             (w2, Inl e) \<Rightarrow> (w2, Inl e)
           | (w2, Inr u) \<Rightarrow> (w2, Inr (Success backup_file))) = (w1, Inr entry)"
          unfolding apply_body_after_get[OF get step] by (simp add: load)
        from put_result_cases[OF this] True Inr no ext show ?thesis by simp
      qed
    qed
  qed
qed

lemma extend_statement_list:
  assumes "extend_statement current new = Inr final"
    and "getitem new ''Statement'' = Inr (JList items)"
  shows "\<exists>stmts. getitem current ''Statement'' = Inr (JList stmts) \<and>
           setitem current ''Statement'' (JList (stmts @ items)) = Inr final"
proof (cases "getitem current ''Statement''")
  case (Inl e)
  with assms show ?thesis by (simp add: extend_statement_def)
next
  case (Inr v)
  with assms show ?thesis by (cases v) (simp_all add: extend_statement_def)
qed

text \<open>
  Claim C1. Let the template file hold exactly one statement, with a string \<^verbatim>\<open>Sid\<close>, and
  let a first application to the bucket have ended without an error for it (success or skipped).
  Then a second application of the same template to the bucket reports skipped, sends no request,
  and leaves the stored policies, hence the number of statements of the bucket's policy, as the
  first application left them.
\<close>

theorem apply_twice_skipped:
  "files w (template_path template_name) = Some (Encoded template) \<and>
   getitem template ''Statement'' = Inr (JList [JObj stmt]) \<and>
   map_of stmt ''Sid'' = Some (JStr sid) \<and>
   apply_policy w [bucket_name] template_name backup account_id = (w1, Inr results1) \<and>
   (\<forall>e. results1 bucket_name \<noteq> Some (Error e)) \<longrightarrow>
   (\<exists>w2. apply_policy w1 [bucket_name] template_name backup2 account_id2
            = (w2, Inr [bucket_name \<mapsto>
                 Skipped (SidExists (JStr (str_replace placeholder bucket_name sid)))]) \<and>
         policies w2 = policies w1 \<and> requests w2 = requests w1 \<and>
         statement_count w2 bucket_name = statement_count w1 bucket_name)"
proof (intro impI, elim conjE)
  assume tfile: "files w (template_path template_name) = Some (Encoded template)"
    and one: "getitem template ''Statement'' = Inr (JList [JObj stmt])"
    and sid: "map_of stmt ''Sid'' = Some (JStr sid)"
    and first: "apply_policy w [bucket_name] template_name backup account_id = (w1, Inr results1)"
    and ok: "\<forall>e. results1 bucket_name \<noteq> Some (Error e)"
  define new where "new = replace_placeholders bucket_name template"
  define new_stmt where "new_stmt = replace_placeholders bucket_name (JObj stmt)"
  define new_sid where "new_sid = JStr (str_replace placeholder bucket_name sid)"
  note loaded = single_statement_loaded[OF tfile one sid, of bucket_name,
      folded new_def new_stmt_def new_sid_def]
  have load: "load_policy_template w template_name bucket_name = Inr new" by (rule loaded(1))
  have tsid: "template_sid new = Inr new_sid" by (rule loaded(4))
  have own: "any_sid_equal [new_stmt] new = Inr True"
    using loaded(3) tsid by (simp add: new_sid_def)
  from apply_policy_single_entry[OF first ok] obtain entry where
    body: "apply_body w bucket_name template_name backup account_id = (w1, Inr entry)" by blast
  obtain current where get: "get_current_policy w bucket_name = Inr current"
    using body by (cases "get_current_policy w bucket_name") (auto simp: apply_body_get_failed)
  have nofault: "get_fault w bucket_name = None" using get by (rule get_current_policy_no_fault)
  obtain wb backup_file where step: "(if backup \<and> truthy current
      then backup_policy w current bucket_name account_id else (w, None)) = (wb, backup_file)"
    by (cases "if backup \<and> truthy current
      then backup_policy w current bucket_name account_id else (w, None)")
  note frame = backup_step_frame[OF step]
  have second: "\<exists>w2. apply_policy w1 [bucket_name] template_name backup2 account_id2
            = (w2, Inr [bucket_name \<mapsto> Skipped (SidExists new_sid)]) \<and>
         policies w2 = policies w1 \<and> requests w2 = requests w1"
    using apply_body_entry_cases[OF body get step load]
  proof (elim disjE conjE exE)
    assume tr: "truthy current" and found: "policy_exists current new = Inr True"
      and w1: "w1 = wb"
    have "get_current_policy wb bucket_name = get_current_policy w bucket_name"
      by (rule get_current_policy_cong) (simp_all add: frame(1,2))
    then have get1: "get_current_policy w1 bucket_name = Inr current"
      unfolding w1 using get by simp
    have "load_policy_template wb template_name bucket_name
        = load_policy_template w template_name bucket_name"
      by (rule load_policy_template_cong) (rule frame(7))
    then have load1: "load_policy_template w1 template_name bucket_name = Inr new"
      unfolding w1 using load by simp
    from apply_policy_skips[OF get1 tr load1 tsid found]
    show ?thesis .
  next
    fix final
    assume tr: "truthy current" and nomatch: "policy_exists current new = Inr False"
      and ext: "extend_statement current new = Inr final"
      and put: "put_bucket_policy wb bucket_name (json_dumps final) = (w1, Inr ())"
    note w1 = put_bucket_policy_done[OF put]
    from extend_statement_list[OF ext loaded(2)] obtain stmts where
      cur_stmts: "getitem current ''Statement'' = Inr (JList stmts)"
      and fin: "setitem current ''Statement'' (JList (stmts @ [new_stmt])) = Inr final"
      by blast
    from nomatch cur_stmts have no: "any_sid_equal stmts new = Inr False"
      by (simp add: policy_exists_def)
    have get1: "get_current_policy w1 bucket_name = Inr final"
      by (rule get_current_policy_stored)
        (simp_all add: w1 json_dumps_def frame(2) nofault)
    have load1: "load_policy_template w1 template_name bucket_name = Inr new"
      using load frame(7)[of template_name]
      by (simp add: load_policy_template_file w1)
    have "policy_exists final new = Inr True"
      using getitem_setitem[OF fin] any_sid_equal_append[OF no, of "[new_stmt]"] own
      by (simp add: policy_exists_def)
    from apply_policy_skips[OF get1 setitem_truthy[OF fin] load1 tsid this]
    show ?thesis .
  next
    assume fa: "\<not> truthy current"
      and put: "put_bucket_policy wb bucket_name (json_dumps new) = (w1, Inr ())"
    from fa step have wb: "wb = w" by simp
    note w1 = put_bucket_policy_done[OF put, unfolded wb]
    have get1: "get_current_policy w1 bucket_name = Inr new"
      by (rule get_current_policy_stored) (simp_all add: w1 json_dumps_def nofault)
    have load1: "load_policy_template w1 template_name bucket_name = Inr new"
      using load by (simp add: load_policy_template_file w1)
    have tr: "truthy new" using loaded(2) by (cases new) auto
    have "policy_exists new new = Inr True"
      using loaded(2) own by (simp add: policy_exists_def)
    from apply_policy_skips[OF get1 tr load1 tsid this]
    show ?thesis .
  qed
  then obtain w2 where w2: "apply_policy w1 [bucket_name] template_name backup2 account_id2
      = (w2, Inr [bucket_name \<mapsto> Skipped (SidExists new_sid)])"
    "policies w2 = policies w1" "requests w2 = requests w1" by blast
  from w2(2) have "statement_count w2 bucket_name = statement_count w1 bucket_name"
    by (rule statement_count_cong)
  with w2 show "\<exists>w2. apply_policy w1 [bucket_name] template_name backup2 account_id2
            = (w2, Inr [bucket_name \<mapsto>
                 Skipped (SidExists (JStr (str_replace placeholder bucket_name sid)))]) \<and>
         policies w2 = policies w1 \<and> requests w2 = requests w1 \<and>
         statement_count w2 bucket_name = statement_count w1 bucket_name"
    unfolding new_sid_def by blast
qed

theorem apply_twice_skipped_witness:
  "files (with_templates (world_with write_policy)) (template_path ''read'') = Some (Encoded example_template) \<and>
   getitem example_template ''Statement'' = Inr (JList [JObj [
        (''Sid'', JStr ''AllowRead''),
        (''Effect'', JStr ''Allow''),
        (''Action'', JStr ''s3:GetObject''),
        (''Resource'', JStr ''arn:aws:s3:::${bucket_name}/*'')]]) \<and>
   map_of [(''Sid'', JStr ''AllowRead''), (''Effect'', JStr ''Allow''),
           (''Action'', JStr ''s3:GetObject''),
           (''Resource'', JStr ''arn:aws:s3:::${bucket_name}/*'')] ''Sid'' = Some (JStr ''AllowRead'') \<and>
   snd (apply_policy (with_templates (world_with write_policy)) [''my-bucket''] ''read'' True ''123456789012'')
     = Inr [''my-bucket'' \<mapsto> Success (Some backup_path)] \<and>
   statement_count
     (fst (apply_policy (with_templates (world_with write_policy)) [''my-bucket''] ''read'' True ''123456789012''))
     ''my-bucket'' = Some 2 \<and>
   (\<exists>w2. apply_policy
       (fst (apply_policy (with_templates (world_with write_policy)) [''my-bucket''] ''read'' True ''123456789012''))
       [''my-bucket''] ''read'' True ''123456789012''
       = (w2, Inr [''my-bucket'' \<mapsto> Skipped (SidExists (JStr ''AllowRead''))]) \<and>
      statement_count w2 ''my-bucket'' = Some 2)"
  using apply_twice_skipped[of "with_templates (world_with write_policy)" "''read''" example_template
      "[(''Sid'', JStr ''AllowRead''), (''Effect'', JStr ''Allow''),
        (''Action'', JStr ''s3:GetObject''), (''Resource'', JStr ''arn:aws:s3:::${bucket_name}/*'')]"
      "''AllowRead''" "''my-bucket''" True "''123456789012''"
      "fst (apply_policy (with_templates (world_with write_policy)) [''my-bucket''] ''read'' True ''123456789012'')"
      "[''my-bucket'' \<mapsto> Success (Some backup_path)]" True "''123456789012''"]
  by (simp add: example_defs apply_defs template_path_def statement_count_def)

section \<open>A failing bucket does not stop the batch\<close>

subsection \<open>Only \<^verbatim>\<open>sys.exit\<close> raises something that is not an \<^verbatim>\<open>Exception\<close>\<close>

lemma getitem_Exception: "getitem d k = Inl e \<Longrightarrow> is_Exception e"
  by (cases d) (auto split: option.splits)

lemma getitem0_Exception: "getitem0 d = Inl e \<Longrightarrow> is_Exception e"
  by (cases d) (auto split: list.splits)

lemma dict_get_Exception: "dict_get d k = Inl e \<Longrightarrow> is_Exception e"
  by (cases d) (auto split: option.splits)

lemma py_iter_Exception: "py_iter d = Inl e \<Longrightarrow> is_Exception e"
  by (cases d) auto

lemma py_len_Exception: "py_len d = Inl e \<Longrightarrow> is_Exception e"
  by (cases d) auto

lemma setitem_Exception: "setitem d k v = Inl e \<Longrightarrow> is_Exception e"
  by (cases d) auto

lemma json_loads_Exception: "json_loads c = Inl e \<Longrightarrow> is_Exception e"
  by (cases c) auto

lemma template_sid_Exception: "template_sid new = Inl e \<Longrightarrow> is_Exception e"
  by (auto simp: template_sid_def split: sum.splits
      dest: getitem_Exception getitem0_Exception)

lemma any_sid_equal_Exception: "any_sid_equal stmts new = Inl e \<Longrightarrow> is_Exception e"
  by (induction stmts)
    (auto split: sum.splits if_splits dest: dict_get_Exception template_sid_Exception)

lemma policy_exists_Exception: "policy_exists current new = Inl e \<Longrightarrow> is_Exception e"
  by (auto simp: policy_exists_def split: sum.splits
      dest: getitem_Exception py_iter_Exception any_sid_equal_Exception)

lemma extend_statement_Exception: "extend_statement current new = Inl e \<Longrightarrow> is_Exception e"
  by (auto simp: extend_statement_def split: sum.splits json.splits
      dest: getitem_Exception py_iter_Exception setitem_Exception)

lemma keep_other_sids_Exception: "keep_other_sids stmts sid = Inl e \<Longrightarrow> is_Exception e"
  by (induction stmts arbitrary: e) (auto split: sum.splits dest: dict_get_Exception)

lemma get_current_policy_Exception:
  "get_current_policy w bucket_name = Inl e \<Longrightarrow> is_Exception e"
proof (cases "get_fault w bucket_name")
  case None
  assume "get_current_policy w bucket_name = Inl e"
  with None show ?thesis
    by (auto simp: get_current_policy_def get_bucket_policy_def
        split: option.splits dest: json_loads_Exception)
next
  case (Some err)
  assume "get_current_policy w bucket_name = Inl e"
  with get_current_policy_fault[OF Some] show ?thesis by (simp add: raised_is_Exception)
qed

lemma put_bucket_policy_Exception:
  "put_bucket_policy w b c = (w', Inl e) \<Longrightarrow> is_Exception e"
  by (auto simp: put_bucket_policy_def Let_def raised_is_Exception split: option.splits)

lemma delete_bucket_policy_Exception:
  "delete_bucket_policy w b = (w', Inl e) \<Longrightarrow> is_Exception e"
  by (auto simp: delete_bucket_policy_def Let_def raised_is_Exception split: option.splits)

lemma put_bucket_policy_frame:
  assumes "put_bucket_policy w b c = (w', r)"
  shows "get_fault w' = get_fault w" "files w' = files w"
    "b' \<noteq> b \<Longrightarrow> policies w' b' = policies w b'"
  using assms by (auto simp: put_bucket_policy_def Let_def split: option.splits)

lemma delete_bucket_policy_frame:
  assumes "delete_bucket_policy w b = (w', r)"
  shows "get_fault w' = get_fault w" "files w' = files w"
    "b' \<noteq> b \<Longrightarrow> policies w' b' = policies w b'"
  using assms by (auto simp: delete_bucket_policy_def Let_def split: option.splits)

lemma remove_body_Exception:
  assumes "remove_body w bucket_name sid = (w', Inl e)"
  shows "is_Exception e"
  using assms
  by (auto simp: remove_body_def split: sum.splits if_splits prod.splits
      dest: get_current_policy_Exception getitem_Exception py_len_Exception py_iter_Exception
        keep_other_sids_Exception setitem_Exception put_bucket_policy_Exception
        delete_bucket_policy_Exception)

lemma remove_body_frame:
  assumes "remove_body w bucket_name sid = (w', r)"
  shows "get_fault w' = get_fault w"
    "b' \<noteq> bucket_name \<Longrightarrow> policies w' b' = policies w b'"
  using assms
  by (auto simp: remove_body_def split: sum.splits if_splits prod.splits
      dest: put_bucket_policy_frame delete_bucket_policy_frame)

lemma remove_body_get_failed:
  "get_current_policy w bucket_name = Inl e \<Longrightarrow> remove_body w bucket_name sid = (w, Inl e)"
  by (simp add: remove_body_def)

lemma load_policy_template_Exception:
  "files w (template_path template_name) = Some (Encoded template) \<Longrightarrow>
   load_policy_template w template_name bucket_name = Inl e \<Longrightarrow> is_Exception e"
  by (simp add: load_policy_template_file)

lemma apply_body_world:
  assumes body: "apply_body w bucket_name template_name backup account_id = (w', r)"
    and get: "get_current_policy w bucket_name = Inr current"
    and step: "(if backup \<and> truthy current
      then backup_policy w current bucket_name account_id else (w, None)) = (wb, backup_file)"
  shows "w' = wb \<or> (\<exists>c r'. put_bucket_policy wb bucket_name c = (w', r'))"
proof (cases "load_policy_template w template_name bucket_name")
  case (Inl e)
  with body show ?thesis unfolding apply_body_after_get[OF get step] by simp
next
  case (Inr new)
  let ?decision = "if truthy current then
                   (case policy_exists current new of
                      Inl e \<Rightarrow> Inl e
                    | Inr True \<Rightarrow>
                        (case template_sid new of
                           Inl e \<Rightarrow> Inl e
                         | Inr new_sid \<Rightarrow> Inr (Inl (Skipped (SidExists new_sid))))
                    | Inr False \<Rightarrow>
                        (case extend_statement current new of
                           Inl e \<Rightarrow> Inl e
                         | Inr final_policy \<Rightarrow> Inr (Inr final_policy)))
                 else Inr (Inr new)"
  from body Inr have b: "(case ?decision of
             Inl e \<Rightarrow> (wb, Inl e)
           | Inr (Inl skipped) \<Rightarrow> (wb, Inr skipped)
           | Inr (Inr final_policy) \<Rightarrow>
               (case put_bucket_policy wb bucket_name (json_dumps final_policy) of
                  (w2, Inl e) \<Rightarrow> (w2, Inl e)
                | (w2, Inr u) \<Rightarrow> (w2, Inr (Success backup_file)))) = (w', r)"
    unfolding apply_body_after_get[OF get step] by simp
  show ?thesis
  proof (cases ?decision)
    case (Inl e)
    with b show ?thesis by simp
  next
    case d: (Inr x)
    show ?thesis
    proof (cases x)
      case (Inl skipped)
      with b d show ?thesis by simp
    next
      case (Inr final)
      obtain w2 r2 where p: "put_bucket_policy wb bucket_name (json_dumps final) = (w2, r2)"
        by (cases "put_bucket_policy wb bucket_name (json_dumps final)")
      with b d Inr have "w' = w2" by (cases r2) simp_all
      with p show ?thesis by blast
    qed
  qed
qed

lemma apply_body_frame:
  assumes body: "apply_body w bucket_name template_name backup account_id = (w', r)"
  shows "get_fault w' = get_fault w"
    "files w' (template_path t) = files w (template_path t)"
    "b' \<noteq> bucket_name \<Longrightarrow> policies w' b' = policies w b'"
proof -
  have "get_fault w' = get_fault w \<and> files w' (template_path t) = files w (template_path t) \<and>
      (b' \<noteq> bucket_name \<longrightarrow> policies w' b' = policies w b')"
  proof (cases "get_current_policy w bucket_name")
    case (Inl e)
    with body show ?thesis by (simp add: apply_body_get_failed)
  next
    case (Inr current)
    obtain wb backup_file where step: "(if backup \<and> truthy current
        then backup_policy w current bucket_name account_id else (w, None)) = (wb, backup_file)"
      by (cases "if backup \<and> truthy current
        then backup_policy w current bucket_name account_id else (w, None)")
    note frame = backup_step_frame[OF step]
    from apply_body_world[OF body Inr step] show ?thesis
    proof
      assume "w' = wb"
      with frame(1,2) frame(7)[of t] show ?thesis by simp
    next
      assume "\<exists>c r'. put_bucket_policy wb bucket_name c = (w', r')"
      then obtain c r' where p: "put_bucket_policy wb bucket_name c = (w', r')" by blast
      from put_bucket_policy_frame[OF p] frame(1,2) frame(7)[of t] show ?thesis by simp
    qed
  qed
  then show "get_fault w' = get_fault w"
    "files w' (template_path t) = files w (template_path t)"
    "b' \<noteq> bucket_name \<Longrightarrow> policies w' b' = policies w b'" by simp_all
qed

lemma apply_body_Exception:
  assumes tfile: "files w (template_path template_name) = Some (Encoded template)"
    and body: "apply_body w bucket_name template_name backup account_id = (w', Inl e)"
  shows "is_Exception e"
proof (cases "get_current_policy w bucket_name")
  case (Inl e')
  with body show ?thesis by (auto simp: apply_body_get_failed dest: get_current_policy_Exception)
next
  case (Inr current)
  obtain wb backup_file where step: "(if backup \<and> truthy current
      then backup_policy w current bucket_name account_id else (w, None)) = (wb, backup_file)"
    by (cases "if backup \<and> truthy current
      then backup_policy w current bucket_name account_id else (w, None)")
  have load: "load_policy_template w template_name bucket_name
      = Inr (replace_placeholders bucket_name template)"
    by (simp add: load_policy_template_file tfile)
  from body show ?thesis
    unfolding apply_body_after_get[OF Inr step] load
    by (auto split: sum.splits if_splits bool.splits prod.splits
        dest: policy_exists_Exception template_sid_Exception extend_statement_Exception
          put_bucket_policy_Exception)
qed

lemma get_current_policy_undecodable:
  "get_fault w bucket_name = None \<Longrightarrow> policies w bucket_name = Some Undecodable \<Longrightarrow>
   get_current_policy w bucket_name = Inl JSONDecodeError"
  by (simp add: get_current_policy_def get_bucket_policy_def)

lemma apply_step:
  assumes tfile: "files w (template_path template_name) = Some (Encoded template)"
  shows "\<exists>w1 entry.
    except_Exception (apply_body w bucket_name template_name backup account_id) = (w1, Inr entry) \<and>
    get_fault w1 = get_fault w \<and>
    files w1 (template_path template_name) = files w (template_path template_name) \<and>
    (\<forall>b'. b' \<noteq> bucket_name \<longrightarrow> policies w1 b' = policies w b') \<and>
    (\<forall>err. get_fault w bucket_name = Some err \<longrightarrow> entry = Error (raised err) \<and> w1 = w) \<and>
    (get_fault w bucket_name = None \<and> policies w bucket_name = Some Undecodable \<longrightarrow>
       entry = Error JSONDecodeError \<and> w1 = w)"
proof -
  obtain w1 r where body: "apply_body w bucket_name template_name backup account_id = (w1, r)"
    by (cases "apply_body w bucket_name template_name backup account_id")
  note frame = apply_body_frame[OF body]
  obtain entry where entry: "except_Exception (w1, r) = (w1, Inr entry)"
    using apply_body_Exception[OF tfile, of bucket_name backup account_id w1] body
    by (cases r) (auto simp: except_Exception_def)
  have fault: "entry = Error (raised err) \<and> w1 = w" if "get_fault w bucket_name = Some err" for err
  proof -
    have "apply_body w bucket_name template_name backup account_id = (w, Inl (raised err))"
      by (rule apply_body_get_failed[OF get_current_policy_fault[OF that]])
    with body have "w1 = w" "r = Inl (raised err)" by simp_all
    with entry show ?thesis by (simp add: except_Exception_def raised_is_Exception)
  qed
  have garbled: "entry = Error JSONDecodeError \<and> w1 = w"
    if "get_fault w bucket_name = None" "policies w bucket_name = Some Undecodable"
  proof -
    have "apply_body w bucket_name template_name backup account_id = (w, Inl JSONDecodeError)"
      by (rule apply_body_get_failed[OF get_current_policy_undecodable[OF that]])
    with body have "w1 = w" "r = Inl JSONDecodeError" by simp_all
    with entry show ?thesis by (simp add: except_Exception_def)
  qed
  show ?thesis
  proof (intro exI conjI)
    show "except_Exception (apply_body w bucket_name template_name backup account_id)
        = (w1, Inr entry)" using entry body by simp
    show "get_fault w1 = get_fault w" by (rule frame(1))
    show "files w1 (template_path template_name) = files w (template_path template_name)"
      by (rule frame(2))
    show "\<forall>b'. b' \<noteq> bucket_name \<longrightarrow> policies w1 b' = policies w b'"
      using frame(3) by simp
    show "\<forall>err. get_fault w bucket_name = Some err \<longrightarrow> entry = Error (raised err) \<and> w1 = w"
      using fault by simp
    show "get_fault w bucket_name = None \<and> policies w bucket_name = Some Undecodable \<longrightarrow>
       entry = Error JSONDecodeError \<and> w1 = w"
      using garbled by simp
  qed
qed

lemma remove_step:
  "\<exists>w1 entry.
    except_Exception (remove_body w bucket_name sid) = (w1, Inr entry) \<and>
    get_fault w1 = get_fault w \<and>
    (\<forall>b'. b' \<noteq> bucket_name \<longrightarrow> policies w1 b' = policies w b') \<and>
    (\<forall>err. get_fault w bucket_name = Some err \<longrightarrow> entry = Error (raised err) \<and> w1 = w) \<and>
    (get_fault w bucket_name = None \<and> policies w bucket_name = Some Undecodable \<longrightarrow>
       entry = Error JSONDecodeError \<and> w1 = w)"
proof -
  obtain w1 r where body: "remove_body w bucket_name sid = (w1, r)"
    by (cases "remove_body w bucket_name sid")
  note frame = remove_body_frame[OF body]
  obtain entry where entry: "except_Exception (w1, r) = (w1, Inr entry)"
    using remove_body_Exception[of w bucket_name sid w1] body
    by (cases r) (auto simp: except_Exception_def)
  have fault: "entry = Error (raised err) \<and> w1 = w" if "get_fault w bucket_name = Some err" for err
  proof -
    have "remove_body w bucket_name sid = (w, Inl (raised err))"
      by (rule remove_body_get_failed[OF get_current_policy_fault[OF that]])
    with body have "w1 = w" "r = Inl (raised err)" by simp_all
    with entry show ?thesis by (simp add: except_Exception_def raised_is_Exception)
  qed
  have garbled: "entry = Error JSONDecodeError \<and> w1 = w"
    if "get_fault w bucket_name = None" "policies w bucket_name = Some Undecodable"
  proof -
    have "remove_body w bucket_name sid = (w, Inl JSONDecodeError)"
      by (rule remove_body_get_failed[OF get_current_policy_undecodable[OF that]])
    with body have "w1 = w" "r = Inl JSONDecodeError" by simp_all
    with entry show ?thesis by (simp add: except_Exception_def)
  qed
  show ?thesis
  proof (intro exI conjI)
    show "except_Exception (remove_body w bucket_name sid) = (w1, Inr entry)"
      using entry body by simp
    show "get_fault w1 = get_fault w" by (rule frame(1))
    show "\<forall>b'. b' \<noteq> bucket_name \<longrightarrow> policies w1 b' = policies w b'"
      using frame(2) by simp
    show "\<forall>err. get_fault w bucket_name = Some err \<longrightarrow> entry = Error (raised err) \<and> w1 = w"
      using fault by simp
    show "get_fault w bucket_name = None \<and> policies w bucket_name = Some Undecodable \<longrightarrow>
       entry = Error JSONDecodeError \<and> w1 = w"
      using garbled by simp
  qed
qed

lemma apply_loop_isolated:
  "files w (template_path template_name) = Some (Encoded template) \<Longrightarrow>
   \<exists>w' results'.
     apply_loop w bucket_list template_name backup account_id results = (w', Inr results') \<and>
     dom results' = dom results \<union> set bucket_list \<and>
     (\<forall>b. b \<notin> set bucket_list \<longrightarrow> results' b = results b) \<and>
     (\<forall>b\<in>set bucket_list. \<forall>err. get_fault w b = Some err \<longrightarrow>
        results' b = Some (Error (raised err))) \<and>
     (\<forall>b\<in>set bucket_list. get_fault w b = None \<and> policies w b = Some Undecodable \<longrightarrow>
        results' b = Some (Error JSONDecodeError))"
proof (induction bucket_list arbitrary: w results)
  case Nil
  then show ?case by simp
next
  case (Cons bucket_name rest)
  from apply_step[OF Cons.prems, of bucket_name backup account_id] obtain w1 entry where
    step: "except_Exception (apply_body w bucket_name template_name backup account_id)
      = (w1, Inr entry)"
    and gf: "get_fault w1 = get_fault w"
    and tf: "files w1 (template_path template_name) = files w (template_path template_name)"
    and others: "\<forall>b'. b' \<noteq> bucket_name \<longrightarrow> policies w1 b' = policies w b'"
    and fault: "\<forall>err. get_fault w bucket_name = Some err \<longrightarrow> entry = Error (raised err) \<and> w1 = w"
    and garbled: "get_fault w bucket_name = None \<and> policies w bucket_name = Some Undecodable \<longrightarrow>
       entry = Error JSONDecodeError \<and> w1 = w"
    by blast
  from tf Cons.prems have "files w1 (template_path template_name) = Some (Encoded template)"
    by simp
  from Cons.IH[OF this, of "results(bucket_name \<mapsto> entry)"] obtain w' results' where
    run: "apply_loop w1 rest template_name backup account_id (results(bucket_name \<mapsto> entry))
      = (w', Inr results')"
    and dom: "dom results' = dom (results(bucket_name \<mapsto> entry)) \<union> set rest"
    and keep: "\<forall>b. b \<notin> set rest \<longrightarrow> results' b = (results(bucket_name \<mapsto> entry)) b"
    and f: "\<forall>b\<in>set rest. \<forall>err. get_fault w1 b = Some err \<longrightarrow>
        results' b = Some (Error (raised err))"
    and g: "\<forall>b\<in>set rest. get_fault w1 b = None \<and> policies w1 b = Some Undecodable \<longrightarrow>
        results' b = Some (Error JSONDecodeError)"
    by blast
  have pol: "policies w1 b = Some Undecodable"
    if "get_fault w b = None" "policies w b = Some Undecodable" for b
    using that others garbled by (cases "b = bucket_name") auto
  have "apply_loop w (bucket_name # rest) template_name backup account_id results
      = (w', Inr results')"
    using step run by simp
  moreover have "dom results' = dom results \<union> set (bucket_name # rest)"
    using dom by auto
  moreover have "\<forall>b. b \<notin> set (bucket_name # rest) \<longrightarrow> results' b = results b"
    using keep by auto
  moreover have "\<forall>b\<in>set (bucket_name # rest). \<forall>err. get_fault w b = Some err \<longrightarrow>
        results' b = Some (Error (raised err))"
  proof (intro ballI allI impI)
    fix b err assume b: "b \<in> set (bucket_name # rest)" and e: "get_fault w b = Some err"
    show "results' b = Some (Error (raised err))"
    proof (cases "b \<in> set rest")
      case True
      with f e gf show ?thesis by simp
    next
      case False
      with b have "b = bucket_name" by simp
      with False keep fault e show ?thesis by simp
    qed
  qed
  moreover have "\<forall>b\<in>set (bucket_name # rest).
      get_fault w b = None \<and> policies w b = Some Undecodable \<longrightarrow>
        results' b = Some (Error JSONDecodeError)"
  proof (intro ballI impI, elim conjE)
    fix b assume b: "b \<in> set (bucket_name # rest)" and e: "get_fault w b = None"
      and u: "policies w b = Some Undecodable"
    show "results' b = Some (Error JSONDecodeError)"
    proof (cases "b \<in> set rest")
      case True
      with g e gf pol[OF e u] show ?thesis by simp
    next
      case False
      with b have "b = bucket_name" by simp
      with False keep garbled e u show ?thesis by simp
    qed
  qed
  ultimately show ?case by blast
qed

lemma remove_loop_isolated:
  "\<exists>w' results'.
     remove_loop w bucket_list sid results = (w', Inr results') \<and>
     dom results' = dom results \<union> set bucket_list \<and>
     (\<forall>b. b \<notin> set bucket_list \<longrightarrow> results' b = results b) \<and>
     (\<forall>b\<in>set bucket_list. \<forall>err. get_fault w b = Some err \<longrightarrow>
        results' b = Some (Error (raised err))) \<and>
     (\<forall>b\<in>set bucket_list. get_fault w b = None \<and> policies w b = Some Undecodable \<longrightarrow>
        results' b = Some (Error JSONDecodeError))"
proof (induction bucket_list arbitrary: w results)
  case Nil
  then show ?case by simp
next
  case (Cons bucket_name rest)
  from remove_step[of w bucket_name sid] obtain w1 entry where
    step: "except_Exception (remove_body w bucket_name sid) = (w1, Inr entry)"
    and gf: "get_fault w1 = get_fault w"
    and others: "\<forall>b'. b' \<noteq> bucket_name \<longrightarrow> policies w1 b' = policies w b'"
    and fault: "\<forall>err. get_fault w bucket_name = Some err \<longrightarrow> entry = Error (raised err) \<and> w1 = w"
    and garbled: "get_fault w bucket_name = None \<and> policies w bucket_name = Some Undecodable \<longrightarrow>
       entry = Error JSONDecodeError \<and> w1 = w"
    by blast
  from Cons.IH[of w1 "results(bucket_name \<mapsto> entry)"] obtain w' results' where
    run: "remove_loop w1 rest sid (results(bucket_name \<mapsto> entry)) = (w', Inr results')"
    and dom: "dom results' = dom (results(bucket_name \<mapsto> entry)) \<union> set rest"
    and keep: "\<forall>b. b \<notin> set rest \<longrightarrow> results' b = (results(bucket_name \<mapsto> entry)) b"
    and f: "\<forall>b\<in>set rest. \<forall>err. get_fault w1 b = Some err \<longrightarrow>
        results' b = Some (Error (raised err))"
    and g: "\<forall>b\<in>set rest. get_fault w1 b = None \<and> policies w1 b = Some Undecodable \<longrightarrow>
        results' b = Some (Error JSONDecodeError)"
    by blast
  have pol: "policies w1 b = Some Undecodable"
    if "get_fault w b = None" "policies w b = Some Undecodable" for b
    using that others garbled by (cases "b = bucket_name") auto
  have "remove_loop w (bucket_name # rest) sid results = (w', Inr results')"
    using step run by simp
  moreover have "dom results' = dom results \<union> set (bucket_name # rest)"
    using dom by auto
  moreover have "\<forall>b. b \<notin> set (bucket_name # rest) \<longrightarrow> results' b = results b"
    using keep by auto
  moreover have "\<forall>b\<in>set (bucket_name # rest). \<forall>err. get_fault w b = Some err \<longrightarrow>
        results' b = Some (Error (raised err))"
  proof (intro ballI allI impI)
    fix b err assume b: "b \<in> set (bucket_name # rest)" and e: "get_fault w b = Some err"
    show "results' b = Some (Error (raised err))"
    proof (cases "b \<in> set rest")
      case True
      with f e gf show ?thesis by simp
    next
      case False
      with b have "b = bucket_name" by simp
      with False keep fault e show ?thesis by simp
    qed
  qed
  moreover have "\<forall>b\<in>set (bucket_name # rest).
      get_fault w b = None \<and> policies w b = Some Undecodable \<longrightarrow>
        results' b = Some (Error JSONDecodeError)"
  proof (intro ballI impI, elim conjE)
    fix b assume b: "b \<in> set (bucket_name # rest)" and e: "get_fault w b = None"
      and u: "policies w b = Some Undecodable"
    show "results' b = Some (Error JSONDecodeError)"
    proof (cases "b \<in> set rest")
      case True
      with g e gf pol[OF e u] show ?thesis by simp
    next
      case False
      with b have "b = bucket_name" by simp
      with False keep garbled e u show ?thesis by simp
    qed
  qed
  ultimately show ?case by blast
qed

text \<open>
  Claim C8. With the template file in place (its absence is a fatal setup error, which ends the
  process), apply returns a result for the whole list: every bucket of the list has an entry,
  a bucket that the store refuses to read (access denied, transport failure) has the error of that
  refusal as its entry, and so has a bucket whose stored policy text cannot be decoded. Remove does
  the same for every world. In both loops an exception raised while one bucket is processed
  becomes the error entry of that bucket, and the loop goes on with the buckets that remain.
\<close>

theorem per_bucket_error_isolation:
  "(files w (template_path template_name) = Some (Encoded template) \<longrightarrow>
      (\<exists>w' results.
         apply_policy w bucket_list template_name backup account_id = (w', Inr results) \<and>
         dom results = set bucket_list \<and>
         (\<forall>b\<in>set bucket_list. \<forall>err. get_fault w b = Some err \<longrightarrow>
            results b = Some (Error (raised err))) \<and>
         (\<forall>b\<in>set bucket_list. get_fault w b = None \<and> policies w b = Some Undecodable \<longrightarrow>
            results b = Some (Error JSONDecodeError)))) \<and>
   (\<exists>w' results.
      remove_policy w bucket_list sid = (w', Inr results) \<and>
      dom results = set bucket_list \<and>
      (\<forall>b\<in>set bucket_list. \<forall>err. get_fault w b = Some err \<longrightarrow>
         results b = Some (Error (raised err))) \<and>
      (\<forall>b\<in>set bucket_list. get_fault w b = None \<and> policies w b = Some Undecodable \<longrightarrow>
         results b = Some (Error JSONDecodeError))) \<and>
   (\<forall>w1 e bucket_name rest results.
      apply_body w bucket_name template_name backup account_id = (w1, Inl e) \<and> is_Exception e \<longrightarrow>
      apply_loop w (bucket_name # rest) template_name backup account_id results
        = apply_loop w1 rest template_name backup account_id (results(bucket_name \<mapsto> Error e))) \<and>
   (\<forall>w1 e bucket_name rest results.
      remove_body w bucket_name sid = (w1, Inl e) \<and> is_Exception e \<longrightarrow>
      remove_loop w (bucket_name # rest) sid results
        = remove_loop w1 rest sid (results(bucket_name \<mapsto> Error e)))"
proof (intro conjI impI)
  assume "files w (template_path template_name) = Some (Encoded template)"
  from apply_loop_isolated[OF this, of bucket_list backup account_id Map.empty]
  show "\<exists>w' results.
         apply_policy w bucket_list template_name backup account_id = (w', Inr results) \<and>
         dom results = set bucket_list \<and>
         (\<forall>b\<in>set bucket_list. \<forall>err. get_fault w b = Some err \<longrightarrow>
            results b = Some (Error (raised err))) \<and>
         (\<forall>b\<in>set bucket_list. get_fault w b = None \<and> policies w b = Some Undecodable \<longrightarrow>
            results b = Some (Error JSONDecodeError))"
    unfolding apply_policy_def by (elim exE conjE, intro exI conjI) simp_all
next
  from remove_loop_isolated[of w bucket_list sid Map.empty]
  show "\<exists>w' results.
      remove_policy w bucket_list sid = (w', Inr results) \<and>
      dom results = set bucket_list \<and>
      (\<forall>b\<in>set bucket_list. \<forall>err. get_fault w b = Some err \<longrightarrow>
         results b = Some (Error (raised err))) \<and>
      (\<forall>b\<in>set bucket_list. get_fault w b = None \<and> policies w b = Some Undecodable \<longrightarrow>
         results b = Some (Error JSONDecodeError))"
    unfolding remove_policy_def by (elim exE conjE, intro exI conjI) simp_all
next
  show "\<forall>w1 e bucket_name rest results.
      apply_body w bucket_name template_name backup account_id = (w1, Inl e) \<and> is_Exception e \<longrightarrow>
      apply_loop w (bucket_name # rest) template_name backup account_id results
        = apply_loop w1 rest template_name backup account_id (results(bucket_name \<mapsto> Error e))"
    by (simp add: except_Exception_def)
next
  show "\<forall>w1 e bucket_name rest results.
      remove_body w bucket_name sid = (w1, Inl e) \<and> is_Exception e \<longrightarrow>
      remove_loop w (bucket_name # rest) sid results
        = remove_loop w1 rest sid (results(bucket_name \<mapsto> Error e))"
    by (simp add: except_Exception_def)
qed

theorem per_bucket_error_isolation_witness:
  "files troubled_world (template_path ''read'') = Some (Encoded example_template) \<and>
   get_fault troubled_world ''denied'' = Some AccessDenied \<and>
   get_fault troubled_world ''garbled'' = None \<and>
   policies troubled_world ''garbled'' = Some Undecodable \<and>
   (case apply_policy troubled_world [''denied'', ''garbled'', ''my-bucket''] ''read'' True ''123456789012'' of
      (w', Inr results) \<Rightarrow>
        results ''denied'' = Some (Error (ClientError ''AccessDenied'')) \<and>
        results ''garbled'' = Some (Error JSONDecodeError) \<and>
        results ''my-bucket'' = Some (Success (Some backup_path))
    | (w', Inl e) \<Rightarrow> False) \<and>
   (case remove_policy troubled_world [''denied'', ''garbled'', ''my-bucket''] ''AllowWrite'' of
      (w', Inr results) \<Rightarrow>
        results ''denied'' = Some (Error (ClientError ''AccessDenied'')) \<and>
        results ''garbled'' = Some (Error JSONDecodeError) \<and>
        results ''my-bucket'' = Some (Success None)
    | (w', Inl e) \<Rightarrow> False) \<and>
   apply_body troubled_world ''denied'' ''read'' True ''123456789012''
     = (troubled_world, Inl (ClientError ''AccessDenied'')) \<and>
   remove_body troubled_world ''denied'' ''AllowWrite''
     = (troubled_world, Inl (ClientError ''AccessDenied'')) \<and>
   is_Exception (ClientError ''AccessDenied'')"
  using per_bucket_error_isolation[of troubled_world "''read''" example_template
      "[''denied'', ''garbled'', ''my-bucket'']" True "''123456789012''" "''AllowWrite''"]
  by (simp add: example_defs apply_defs remove_defs template_path_def)

end
